theory Spec2Isabelle
  imports
    Complex_Main
    "HOL-Library.AList"
    "HOL-Library.Multiset"
    "HOL-Library.Char_ord"
    "HOL-Library.List_Lexorder"
    "HOL-Library.Sublist"
begin

section \<open>The storefront client (app.js): a shallow embedding\<close>

text \<open>
  The client is one script, \<open>app.js\<close>, run in a browser page. (The repository holds a
  second, older copy of it: the functions embedded here are the same there, except that
  the copy has no \<open>sortFilms\<close> and its \<open>renderMovies\<close> passes every payload beginning with
  \<open>data:\<close> through unchanged.) The functions are embedded one by one, under their own
  names. What the script reads from and writes to the page (the DOM, \<open>localStorage\<close>,
  \<open>alert\<close>, \<open>window.location\<close>) is explicit state; what it throws is a value. What the
  browser supplies and the script only calls (the network behind \<open>fetch\<close>, \<open>JSON.parse\<close>,
  the selector engine, and the built-ins that rest on the tables of Unicode or on the
  binary64 format of numbers) is a parameter, the platform: every property below is
  proved for every platform.

  A JavaScript string is a \<open>string\<close>: the UTF-8 bytes of the text (the Russian texts and
  the glyphs of the script are constants holding these bytes; where the source is
  quoted, they are transliterated). Two strings are equal exactly if their bytes are;
  the order of strings, which is by UTF-16 code units, is computed from the bytes.
  One invocation of an \<open>async\<close> function is embedded as one function from the state
  before to the state after: no other handler runs between its \<open>await\<close> and its
  resumption.
\<close>

subsection \<open>JavaScript values\<close>

text \<open>
  The values the script handles: what \<open>JSON.parse\<close> yields (null, booleans, numbers,
  strings, arrays, objects), \<open>undefined\<close>, and the built-in functions an object
  inherits. A number is given by its value, a rational: every finite binary64 number
  has one (\<open>NaN\<close> and the infinities are no JSON; \<open>parseFloat\<close> yields them, as a
  \<open>jsnum\<close>). An object is the list of its own properties, in insertion order.
\<close>

datatype jsval =
    JUndefined
  | JNull
  | JBool bool
  | JNum rat
  | JStr string
  | JFun string
  | JArr "jsval list"
  | JObj "(string \<times> jsval) list"

type_synonym jsobj = "(string \<times> jsval) list"

datatype jsnum = NaN | NegInf | Fin rat | PosInf

text \<open>What \<open>if (v)\<close>, \<open>v || w\<close> and \<open>v && w\<close> test.\<close>

fun truthy :: "jsval \<Rightarrow> bool" where
  "truthy JUndefined = False"
| "truthy JNull = False"
| "truthy (JBool b) = b"
| "truthy (JNum r) = (r \<noteq> 0)"
| "truthy (JStr s) = (s \<noteq> [])"
| "truthy (JFun f) = True"
| "truthy (JArr xs) = True"
| "truthy (JObj ps) = True"

definition or_else :: "jsval \<Rightarrow> jsval \<Rightarrow> jsval" where
  \<comment> \<open>\<open>v || w\<close>\<close>
  "or_else v w = (if truthy v then v else w)"

definition nullish :: "jsval \<Rightarrow> jsval \<Rightarrow> jsval" where
  \<comment> \<open>\<open>v ?? w\<close>\<close>
  "nullish v w = (if v = JUndefined \<or> v = JNull then w else v)"

text \<open>
  An object literal inherits the members of \<open>Object.prototype\<close>: reading one of these
  names on an object that has no own property of the name yields the inherited member
  (a function; for \<open>__proto__\<close> the prototype object itself).
\<close>

definition Object_prototype :: jsobj where
  "Object_prototype =
     [(''constructor'', JFun ''Object''),
      (''hasOwnProperty'', JFun ''hasOwnProperty''),
      (''isPrototypeOf'', JFun ''isPrototypeOf''),
      (''propertyIsEnumerable'', JFun ''propertyIsEnumerable''),
      (''toLocaleString'', JFun ''toLocaleString''),
      (''toString'', JFun ''toString''),
      (''valueOf'', JFun ''valueOf''),
      (''__defineGetter__'', JFun ''__defineGetter__''),
      (''__defineSetter__'', JFun ''__defineSetter__''),
      (''__lookupGetter__'', JFun ''__lookupGetter__''),
      (''__lookupSetter__'', JFun ''__lookupSetter__''),
      (''__proto__'', JObj [])]"

definition get :: "jsobj \<Rightarrow> string \<Rightarrow> jsval" where
  \<comment> \<open>\<open>obj[key]\<close> and \<open>obj.key\<close> on an object\<close>
  "get obj key =
     (case map_of obj key of
        Some v \<Rightarrow> v
      | None \<Rightarrow> (case map_of Object_prototype key of Some v \<Rightarrow> v | None \<Rightarrow> JUndefined))"

text \<open>
  \<open>v.key\<close> on any value other than \<open>undefined\<close> and \<open>null\<close>, for the names the script
  reads on a response body (\<open>detail\<close>, \<open>message\<close>, \<open>access_token\<close>): a value that is not
  an object has none of them.
\<close>

fun member :: "jsval \<Rightarrow> string \<Rightarrow> jsval" where
  "member (JObj ps) key = get ps key"
| "member v key = JUndefined"

subsection \<open>The platform\<close>

text \<open>
  What the script throws: the class of the error and its message.
\<close>

datatype js_error = Error string | TypeError string | SyntaxError string

fun message :: "js_error \<Rightarrow> string" where
  "message (Error m) = m"
| "message (TypeError m) = m"
| "message (SyntaxError m) = m"

definition message_or :: "js_error \<Rightarrow> string \<Rightarrow> string" where
  \<comment> \<open>\<open>e.message || fallback\<close>\<close>
  "message_or e fallback = (if message e \<noteq> [] then message e else fallback)"

text \<open>
  A request as \<open>fetch\<close> receives it, and what \<open>fetch\<close> and \<open>res.text()\<close> give back:
  the promise is rejected (the transport failed), or there is a response, with its
  \<open>ok\<close> flag (a status from 200 to 299) and the text of its body.
\<close>

record request =
  url :: string
  req_method :: "string option"
  req_headers :: "string \<rightharpoonup> string"
  req_body :: "string option"

record response =
  res_ok :: bool
  res_text :: string

datatype fetched = Rejected js_error | Resolved response

text \<open>
  A movie card of the page, as far as the toggles read and write it: its \<open>data-id\<close>
  attribute and the text of its \<open>.cart-btn\<close> and \<open>.bookmark-btn\<close> buttons (\<open>None\<close> when the
  card has no such button).
\<close>

record card =
  data_id :: "string option"
  cart_btn :: "string option"
  bookmark_btn :: "string option"

text \<open>
  The platform:
  \<^item> \<open>fetch\<close>, the network;
  \<^item> \<open>JSON_parse\<close>, the parser behind \<open>JSON.parse\<close> (\<open>None\<close> is its SyntaxError);
  \<^item> \<open>protocol\<close> and \<open>origin\<close> of \<open>window.location\<close>;
  \<^item> \<open>Number_toString\<close>, the text of a number (the shortest decimal that reads back as
    the same binary64 number, in exponent notation from \<open>1e21\<close> on);
  \<^item> \<open>parseFloat_text\<close>, what \<open>parseFloat\<close> makes of a text that is not empty (the binary64
    number nearest to the longest decimal literal at its head, after white space; \<open>NaN\<close>
    when there is none);
  \<^item> \<open>lower_case\<close>, the lower-case mapping of Unicode on a text that is not empty;
  \<^item> \<open>querySelector\<close>, the selector engine behind \<open>document.querySelector\<close>, on the cards
    of the page and the text of a selector: it throws (a selector it cannot parse is a
    SyntaxError) or yields the first element that matches, \<open>None\<close> for \<open>null\<close>. The
    selectors of this script end in the class of a button; the element found is given
    by the position of the card the button belongs to.
\<close>

record platform =
  fetch :: "request \<Rightarrow> fetched"
  JSON_parse :: "string \<Rightarrow> jsval option"
  protocol :: string
  origin :: string
  Number_toString :: "rat \<Rightarrow> string"
  parseFloat_text :: "string \<Rightarrow> jsnum"
  lower_case :: "string \<Rightarrow> string"
  querySelector :: "card list \<Rightarrow> string \<Rightarrow> js_error + nat option"

subsection \<open>Texts and numbers\<close>

fun join :: "string \<Rightarrow> string list \<Rightarrow> string" where
  "join sep [] = []"
| "join sep [x] = x"
| "join sep (x # y # ys) = x @ sep @ join sep (y # ys)"

text \<open>\<open>String(v)\<close> and the interpolation \<open>${v}\<close> of a template: the operation ToString.\<close>

fun ToString :: "platform \<Rightarrow> jsval \<Rightarrow> string" where
  "ToString pf JUndefined = ''undefined''"
| "ToString pf JNull = ''null''"
| "ToString pf (JBool b) = (if b then ''true'' else ''false'')"
| "ToString pf (JNum r) = Number_toString pf r"
| "ToString pf (JStr s) = s"
| "ToString pf (JFun f) = ''function '' @ f @ ''() { [native code] }''"
| "ToString pf (JArr xs) =
     join '','' (map (\<lambda>x. if x = JUndefined \<or> x = JNull then [] else ToString pf x) xs)"
| "ToString pf (JObj ps) = ''[object Object]''"

definition startsWith :: "string \<Rightarrow> string \<Rightarrow> bool" where
  "startsWith s p = prefix p s"

definition toLowerCase :: "platform \<Rightarrow> string \<Rightarrow> string" where
  \<comment> \<open>the empty text is its own lower case\<close>
  "toLowerCase pf s = (if s = [] then [] else lower_case pf s)"

text \<open>
  The UTF-16 code units of a text, from its UTF-8 bytes: a code point of one, two or
  three bytes is one unit, a code point of four bytes is a pair of surrogates. (A byte
  that begins no code point is taken as a unit of its own.)
\<close>

definition cont :: "char \<Rightarrow> nat" where
  \<comment> \<open>the six bits a continuation byte carries\<close>
  "cont b = of_char b mod 64"

fun utf16 :: "string \<Rightarrow> nat list" where
  "utf16 [] = []"
| "utf16 (a # s) =
     (if (of_char a :: nat) < 192 then of_char a # utf16 s
      else if (of_char a :: nat) < 224 then
        (case s of
           b # r \<Rightarrow> ((of_char a mod 32) * 64 + cont b) # utf16 r
         | [] \<Rightarrow> [of_char a])
      else if (of_char a :: nat) < 240 then
        (case s of
           b # c # r \<Rightarrow> ((of_char a mod 16) * 4096 + cont b * 64 + cont c) # utf16 r
         | _ \<Rightarrow> of_char a # utf16 s)
      else
        (case s of
           b # c # d # r \<Rightarrow>
             (let cp = (of_char a mod 8) * 262144 + cont b * 4096 + cont c * 64 + cont d - 65536
              in (55296 + cp div 1024) # (56320 + cp mod 1024) # utf16 r)
         | _ \<Rightarrow> of_char a # utf16 s))"

definition text_less :: "string \<Rightarrow> string \<Rightarrow> bool" where
  \<comment> \<open>\<open>a < b\<close> on strings: the lexicographic order of the code units\<close>
  "text_less a b = (utf16 a < utf16 b)"

text \<open>
  \<open>trim\<close> removes the white space and the line terminators at both ends: the code
  points U+0009 to U+000D, U+0020, U+00A0, U+1680, U+2000 to U+200A, U+2028, U+2029,
  U+202F, U+205F, U+3000 and U+FEFF, here in UTF-8.
\<close>

definition WhiteSpace :: "string list" where
  "WhiteSpace =
     [[CHR 0x09], [CHR 0x0A], [CHR 0x0B], [CHR 0x0C], [CHR 0x0D], [CHR 0x20],
      [CHR 0xC2, CHR 0xA0], [CHR 0xE1, CHR 0x9A, CHR 0x80],
      [CHR 0xE2, CHR 0x80, CHR 0x80], [CHR 0xE2, CHR 0x80, CHR 0x81],
      [CHR 0xE2, CHR 0x80, CHR 0x82], [CHR 0xE2, CHR 0x80, CHR 0x83],
      [CHR 0xE2, CHR 0x80, CHR 0x84], [CHR 0xE2, CHR 0x80, CHR 0x85],
      [CHR 0xE2, CHR 0x80, CHR 0x86], [CHR 0xE2, CHR 0x80, CHR 0x87],
      [CHR 0xE2, CHR 0x80, CHR 0x88], [CHR 0xE2, CHR 0x80, CHR 0x89],
      [CHR 0xE2, CHR 0x80, CHR 0x8A], [CHR 0xE2, CHR 0x80, CHR 0xA8],
      [CHR 0xE2, CHR 0x80, CHR 0xA9], [CHR 0xE2, CHR 0x80, CHR 0xAF],
      [CHR 0xE2, CHR 0x81, CHR 0x9F], [CHR 0xE3, CHR 0x80, CHR 0x80],
      [CHR 0xEF, CHR 0xBB, CHR 0xBF]]"

function strip_start :: "string list \<Rightarrow> string \<Rightarrow> string" where
  "strip_start ws s =
     (case find (\<lambda>w. w \<noteq> [] \<and> prefix w s) ws of
        None \<Rightarrow> s
      | Some w \<Rightarrow> strip_start ws (drop (length w) s))"
  by pat_completeness auto
termination
proof (relation "measure (\<lambda>(ws, s). length s)")
  show "wf (measure (\<lambda>(ws, s). length s))" by simp
next
  fix ws :: "string list" and s w :: string
  assume "find (\<lambda>w. w \<noteq> [] \<and> prefix w s) ws = Some w"
  then have "w \<noteq> [] \<and> prefix w s" by (auto simp: find_Some_iff)
  then have "0 < length w" and "length w \<le> length s" by (auto simp: prefix_def)
  then have "length s - length w < length s" by arith
  then show "((ws, drop (length w) s), (ws, s)) \<in> measure (\<lambda>(ws, s). length s)" by simp
qed

definition trim :: "string \<Rightarrow> string" where
  "trim s = rev (strip_start (map rev WhiteSpace) (rev (strip_start WhiteSpace s)))"

text \<open>\<open>parseFloat(v)\<close> reads the text of \<open>v\<close>; the empty text holds no literal.\<close>

definition parseFloat :: "platform \<Rightarrow> jsval \<Rightarrow> jsnum" where
  "parseFloat pf v =
     (let text = ToString pf v in if text = [] then NaN else parseFloat_text pf text)"

definition or_zero :: "jsnum \<Rightarrow> jsnum" where
  \<comment> \<open>\<open>n || 0\<close> on a number: \<open>NaN\<close> and 0 are the falsy numbers\<close>
  "or_zero n = (if n = NaN \<or> n = Fin 0 then Fin 0 else n)"

text \<open>
  \<open>a - b\<close>, given exactly. The subtraction of binary64 rounds the difference; that
  changes neither its sign nor whether it is zero or \<open>NaN\<close>, and the sort below reads
  nothing else of it.
\<close>

fun minus_num :: "jsnum \<Rightarrow> jsnum \<Rightarrow> jsnum" where
  "minus_num NaN b = NaN"
| "minus_num a NaN = NaN"
| "minus_num (Fin a) (Fin b) = Fin (a - b)"
| "minus_num PosInf PosInf = NaN"
| "minus_num NegInf NegInf = NaN"
| "minus_num PosInf b = PosInf"
| "minus_num NegInf b = NegInf"
| "minus_num (Fin a) PosInf = NegInf"
| "minus_num (Fin a) NegInf = PosInf"

fun num_le :: "jsnum \<Rightarrow> jsnum \<Rightarrow> bool" where
  \<comment> \<open>the order of the numbers; \<open>NaN\<close> compares with nothing\<close>
  "num_le NaN b = False"
| "num_le a NaN = False"
| "num_le NegInf b = True"
| "num_le a PosInf = True"
| "num_le (Fin a) (Fin b) = (a \<le> b)"
| "num_le PosInf b = False"
| "num_le a NegInf = False"

subsection \<open>\<open>JSON.stringify\<close>\<close>

definition hex_digit :: "nat \<Rightarrow> char" where
  "hex_digit d = (if d < 10 then char_of (48 + d) else char_of (87 + d))"

definition escape_char :: "char \<Rightarrow> string" where
  "escape_char c =
     (if c = CHR 0x22 then [CHR 0x5C, CHR 0x22]
      else if c = CHR 0x5C then [CHR 0x5C, CHR 0x5C]
      else if c = CHR 0x08 then [CHR 0x5C, CHR ''b'']
      else if c = CHR 0x09 then [CHR 0x5C, CHR ''t'']
      else if c = CHR 0x0A then [CHR 0x5C, CHR ''n'']
      else if c = CHR 0x0C then [CHR 0x5C, CHR ''f'']
      else if c = CHR 0x0D then [CHR 0x5C, CHR ''r'']
      else if c < CHR 0x20 then
        [CHR 0x5C, CHR ''u'', CHR ''0'', CHR ''0'',
         hex_digit (of_char c div 16), hex_digit (of_char c mod 16)]
      else [c])"

definition quote :: "string \<Rightarrow> string" where
  "quote s = [CHR 0x22] @ concat (map escape_char s) @ [CHR 0x22]"

text \<open>
  The JSON text of a value, \<open>None\<close> where \<open>JSON.stringify\<close> yields \<open>undefined\<close> (for
  \<open>undefined\<close> and for a function). Inside an array such an element is written \<open>null\<close>;
  inside an object the property is left out.
\<close>

fun json_text :: "platform \<Rightarrow> jsval \<Rightarrow> string option" where
  "json_text pf JUndefined = None"
| "json_text pf (JFun f) = None"
| "json_text pf JNull = Some ''null''"
| "json_text pf (JBool b) = Some (if b then ''true'' else ''false'')"
| "json_text pf (JNum r) = Some (Number_toString pf r)"
| "json_text pf (JStr s) = Some (quote s)"
| "json_text pf (JArr xs) =
     Some (''['' @ join '','' (map (\<lambda>x. case json_text pf x of None \<Rightarrow> ''null'' | Some t \<Rightarrow> t) xs)
           @ '']'')"
| "json_text pf (JObj ps) =
     Some (''{'' @ join '',''
             (concat (map (\<lambda>p. case json_text pf (snd p) of
                                   None \<Rightarrow> []
                                 | Some t \<Rightarrow> [quote (fst p) @ '':'' @ t]) ps))
           @ ''}'')"

definition JSON_stringify :: "platform \<Rightarrow> jsval \<Rightarrow> jsval" where
  "JSON_stringify pf v = (case json_text pf v of None \<Rightarrow> JUndefined | Some t \<Rightarrow> JStr t)"

subsection \<open>The session forms: \<open>showForm\<close>\<close>

text \<open>
  An element of the page, as far as \<open>showForm\<close> reads it: its id (\<open>None\<close> when it has no
  id attribute or an empty one) and its class list. The page is the list of its
  elements in document order.
\<close>

record element =
  el_id :: "string option"
  classList :: "string list"

type_synonym page = "element list"

text \<open>\<open>classList.contains\<close>, \<open>classList.remove\<close>, \<open>classList.add\<close>.\<close>

definition contains :: "element \<Rightarrow> string \<Rightarrow> bool" where
  "contains e c = (c \<in> set (classList e))"

definition remove_class :: "string \<Rightarrow> element \<Rightarrow> element" where
  "remove_class c e = e\<lparr>classList := removeAll c (classList e)\<rparr>"

definition add_class :: "string \<Rightarrow> element \<Rightarrow> element" where
  "add_class c e = (if contains e c then e else e\<lparr>classList := classList e @ [c]\<rparr>)"

text \<open>\<open>document.getElementById\<close>: the position of the first element with that id.\<close>

fun getElementById :: "page \<Rightarrow> string \<Rightarrow> nat option" where
  "getElementById [] formId = None"
| "getElementById (e # es) formId =
     (if el_id e = Some formId then Some 0
      else map_option Suc (getElementById es formId))"

text \<open>
  \<^verbatim>\<open>
  function showForm(formId) {
      const forms = document.querySelectorAll('.form');
      forms.forEach(form => {
          if (form.classList.contains('active')) { form.classList.remove('active'); }
      });
      const target = document.getElementById(formId);
      if (target) { target.classList.add('active'); }
  }
  \<close>
\<close>

definition deactivate :: "element \<Rightarrow> element" where
  "deactivate form =
     (if contains form ''form'' \<and> contains form ''active''
      then remove_class ''active'' form else form)"

definition showForm :: "page \<Rightarrow> string \<Rightarrow> page" where
  "showForm doc formId =
     (let doc1 = map deactivate doc in
      case getElementById doc1 formId of
        None \<Rightarrow> doc1
      | Some target \<Rightarrow> doc1[target := add_class ''active'' (doc1 ! target)])"

definition is_form :: "element \<Rightarrow> bool" where
  "is_form e = contains e ''form''"

definition active :: "element \<Rightarrow> bool" where
  "active e = contains e ''active''"

definition active_forms :: "page \<Rightarrow> nat list" where
  "active_forms doc = filter (\<lambda>i. is_form (doc ! i) \<and> active (doc ! i)) [0..<length doc]"


subsection \<open>The local storage\<close>

type_synonym storage = "(string \<times> string) list"

definition getItem :: "storage \<Rightarrow> string \<Rightarrow> string option" where
  "getItem ls key = map_of ls key"

definition setItem :: "platform \<Rightarrow> string \<Rightarrow> jsval \<Rightarrow> storage \<Rightarrow> storage" where
  \<comment> \<open>\<open>localStorage.setItem(key, value)\<close> stores the text of the value\<close>
  "setItem pf key v ls = AList.update key (ToString pf v) ls"

subsection \<open>The request gateway: \<open>apiRequest\<close>\<close>

definition API_BASE :: "platform \<Rightarrow> string" where
  "API_BASE pf =
     (if protocol pf = ''file:'' then ''http://localhost:8000/api/v1''
      else origin pf @ ''/api/v1'')"

record options =
  opt_method :: "string option"
  opt_headers :: "(string \<rightharpoonup> string) option"
  opt_body :: "string option"

definition no_options :: options where
  "no_options = \<lparr>opt_method = None, opt_headers = None, opt_body = None\<rparr>"

definition body_text :: "platform \<Rightarrow> jsval \<Rightarrow> string option" where
  \<comment> \<open>the \<open>body\<close> option of a request: absent when it is \<open>undefined\<close>\<close>
  "body_text pf v = (if v = JUndefined then None else Some (ToString pf v))"

text \<open>
  \<^verbatim>\<open>
  const headers = Object.assign({ 'Content-Type': 'application/json' }, options.headers || {});
  const token = localStorage.getItem('token');
  if (token) { headers['Authorization'] = `Bearer ${token}`; }
  \<close>
\<close>

definition request_headers :: "storage \<Rightarrow> options \<Rightarrow> (string \<rightharpoonup> string)" where
  "request_headers ls opts =
     (let headers = [''Content-Type'' \<mapsto> ''application/json'']
                      ++ (case opt_headers opts of None \<Rightarrow> Map.empty | Some h \<Rightarrow> h);
          token = getItem ls ''token''
      in case token of
           None \<Rightarrow> headers
         | Some t \<Rightarrow> if t \<noteq> [] then headers(''Authorization'' \<mapsto> ''Bearer '' @ t) else headers)"

definition the_request :: "platform \<Rightarrow> storage \<Rightarrow> string \<Rightarrow> options \<Rightarrow> request" where
  \<comment> \<open>\<open>fetch(`${API_BASE}${path}`, { ...options, headers })\<close>\<close>
  "the_request pf ls path opts =
     \<lparr>url = API_BASE pf @ path, req_method = opt_method opts,
      req_headers = request_headers ls opts, req_body = opt_body opts\<rparr>"

text \<open>The generic phrase of a failed request, the text \<open>Oshibka zaprosa\<close> in Russian.\<close>

definition request_failed :: string where
  "request_failed =
     [CHR 0xD0, CHR 0x9E, CHR 0xD1, CHR 0x88, CHR 0xD0, CHR 0xB8, CHR 0xD0, CHR 0xB1, CHR 0xD0,
      CHR 0xBA, CHR 0xD0, CHR 0xB0, CHR 0x20, CHR 0xD0, CHR 0xB7, CHR 0xD0, CHR 0xB0, CHR 0xD0,
      CHR 0xBF, CHR 0xD1, CHR 0x80, CHR 0xD0, CHR 0xBE, CHR 0xD1, CHR 0x81, CHR 0xD0, CHR 0xB0]"

text \<open>
  \<^verbatim>\<open>
  let data;
  try { data = text ? JSON.parse(text) : {}; } catch { data = { detail: text }; }
  \<close>
\<close>

definition parse_body :: "platform \<Rightarrow> string \<Rightarrow> jsval" where
  "parse_body pf text =
     (if text \<noteq> [] then
        (case JSON_parse pf text of
           Some v \<Rightarrow> v
         | None \<Rightarrow> JObj [(''detail'', JStr text)])
      else JObj [])"

text \<open>
  \<^verbatim>\<open>
  const message = (data && (data.detail || data.message)) || 'Oshibka zaprosa';
  throw new Error(typeof message === 'string' ? message : JSON.stringify(message));
  \<close>
  An \<open>Error\<close> made from \<open>undefined\<close> has the empty message.
\<close>

definition failure_message :: "jsval \<Rightarrow> jsval" where
  "failure_message data =
     or_else (if truthy data then or_else (member data ''detail'') (member data ''message'')
              else data)
             (JStr request_failed)"

definition new_Error :: "platform \<Rightarrow> jsval \<Rightarrow> js_error" where
  "new_Error pf m = Error (if m = JUndefined then [] else ToString pf m)"

definition failure :: "platform \<Rightarrow> jsval \<Rightarrow> js_error" where
  "failure pf data =
     (let message = failure_message data
      in new_Error pf (case message of JStr s \<Rightarrow> message | _ \<Rightarrow> JSON_stringify pf message))"

definition apiRequest :: "platform \<Rightarrow> storage \<Rightarrow> string \<Rightarrow> options \<Rightarrow> js_error + jsval" where
  "apiRequest pf ls path opts =
     (case fetch pf (the_request pf ls path opts) of
        Rejected e \<Rightarrow> Inl e
      | Resolved res \<Rightarrow>
          (let text = res_text res;
               data = parse_body pf text
           in if \<not> res_ok res then Inl (failure pf data) else Inr data))"

subsection \<open>The message of a failed request, in the words of the specification\<close>

text \<open>
  The specification's account of the message \<open>apiRequest\<close> throws on a failure status:
  the \<open>detail\<close> field of the parsed body, else its \<open>message\<close> field, else the generic
  phrase, a field that is not a string being stringified. A field counts when it is
  truthy, as the \<open>||\<close> of the source has it. It is compared with \<open>failure\<close> below.
\<close>

definition stringified :: "platform \<Rightarrow> jsval \<Rightarrow> string" where
  "stringified pf v =
     (case v of JStr s \<Rightarrow> s | _ \<Rightarrow> (case json_text pf v of Some t \<Rightarrow> t | None \<Rightarrow> []))"

definition message_of_body :: "platform \<Rightarrow> jsval \<Rightarrow> string" where
  "message_of_body pf data =
     (if truthy data \<and> truthy (member data ''detail'')
        then stringified pf (member data ''detail'')
      else if truthy data \<and> truthy (member data ''message'')
        then stringified pf (member data ''message'')
      else request_failed)"

subsection \<open>The login form\<close>

text \<open>
  The page that carries the form \<open>#login\<close>, as far as the submit handler reads and writes
  it: the values of the fields \<open>#loginUsername\<close> and \<open>#loginPassword\<close>, the text and the
  class list of the error area \<open>#loginError\<close>, the local storage, and the address the
  handler has assigned to \<open>window.location.href\<close>, if any.
\<close>

record login_page =
  loginUsername :: string
  loginPassword :: string
  loginError_text :: string
  loginError_classes :: "string list"
  storage :: storage
  href :: "string option"

definition fill_all_fields :: string where
  \<comment> \<open>\<open>Zapolnite vse polya!\<close>\<close>
  "fill_all_fields =
     [CHR 0xD0, CHR 0x97, CHR 0xD0, CHR 0xB0, CHR 0xD0, CHR 0xBF, CHR 0xD0, CHR 0xBE, CHR 0xD0,
      CHR 0xBB, CHR 0xD0, CHR 0xBD, CHR 0xD0, CHR 0xB8, CHR 0xD1, CHR 0x82, CHR 0xD0, CHR 0xB5,
      CHR 0x20, CHR 0xD0, CHR 0xB2, CHR 0xD1, CHR 0x81, CHR 0xD0, CHR 0xB5, CHR 0x20, CHR 0xD0,
      CHR 0xBF, CHR 0xD0, CHR 0xBE, CHR 0xD0, CHR 0xBB, CHR 0xD1, CHR 0x8F, CHR 0x21]"

definition login_error :: string where
  \<comment> \<open>\<open>Oshibka vhoda\<close>\<close>
  "login_error =
     [CHR 0xD0, CHR 0x9E, CHR 0xD1, CHR 0x88, CHR 0xD0, CHR 0xB8, CHR 0xD0, CHR 0xB1, CHR 0xD0,
      CHR 0xBA, CHR 0xD0, CHR 0xB0, CHR 0x20, CHR 0xD0, CHR 0xB2, CHR 0xD1, CHR 0x85, CHR 0xD0,
      CHR 0xBE, CHR 0xD0, CHR 0xB4, CHR 0xD0, CHR 0xB0]"

definition show_login_error :: "string \<Rightarrow> login_page \<Rightarrow> login_page" where
  \<comment> \<open>\<open>errorDiv.textContent = m; errorDiv.classList.add('show')\<close>\<close>
  "show_login_error m s =
     s\<lparr>loginError_text := m,
       loginError_classes :=
         (if ''show'' \<in> set (loginError_classes s) then loginError_classes s
          else loginError_classes s @ [''show''])\<rparr>"

definition clear_login_error :: "login_page \<Rightarrow> login_page" where
  \<comment> \<open>\<open>errorDiv.classList.remove('show'); errorDiv.textContent = ''\<close>\<close>
  "clear_login_error s =
     s\<lparr>loginError_classes := removeAll ''show'' (loginError_classes s), loginError_text := []\<rparr>"

definition login_request :: "platform \<Rightarrow> login_page \<Rightarrow> js_error + jsval" where
  \<comment> \<open>\<open>apiRequest('/login', { method: 'POST', body: JSON.stringify({ username, password }) })\<close>\<close>
  "login_request pf s =
     apiRequest pf (storage s) ''/login''
       \<lparr>opt_method = Some ''POST'', opt_headers = None,
        opt_body = body_text pf (JSON_stringify pf
                     (JObj [(''username'', JStr (trim (loginUsername s))),
                            (''password'', JStr (loginPassword s))]))\<rparr>"

text \<open>
  \<^verbatim>\<open>
  const username = document.getElementById('loginUsername').value.trim();
  const password = document.getElementById('loginPassword').value;
  const errorDiv = document.getElementById('loginError');
  if (!username || !password) {
      errorDiv.textContent = 'Zapolnite vse polya!';
      errorDiv.classList.add('show');
      return;
  }
  try {
      const data = await apiRequest('/login', { method: 'POST',
          body: JSON.stringify({ username, password }) });
      if (data && data.access_token) {
          localStorage.setItem('token', data.access_token);
      }
      errorDiv.classList.remove('show');
      errorDiv.textContent = '';
      window.location.href = '/home.html';
  } catch (err) {
      errorDiv.textContent = err.message || 'Oshibka vhoda';
      errorDiv.classList.add('show');
  }
  \<close>
\<close>

definition login_submit :: "platform \<Rightarrow> login_page \<Rightarrow> login_page" where
  "login_submit pf s =
     (let username = trim (loginUsername s);
          password = loginPassword s
      in if username = [] \<or> password = [] then show_login_error fill_all_fields s
         else
           (case login_request pf s of
              Inr data \<Rightarrow>
                (let s1 = (if truthy data \<and> truthy (member data ''access_token'')
                           then s\<lparr>storage := setItem pf ''token'' (member data ''access_token'')
                                                (storage s)\<rparr>
                           else s)
                 in (clear_login_error s1)\<lparr>href := Some ''/home.html''\<rparr>)
            | Inl err \<Rightarrow> show_login_error (message_or err login_error) s))"


subsection \<open>The collection store: cart and bookmarks\<close>

text \<open>
  The state of the page: the two collections, the local storage, the movie cards in
  document order, and the messages shown by \<open>alert\<close> so far.
\<close>

record app =
  cart :: "jsobj list"
  bookmarks :: "jsobj list"
  localStorage :: storage
  cards :: "card list"
  alerts :: "string list"

definition alert :: "string \<Rightarrow> app \<Rightarrow> app" where
  "alert m s = s\<lparr>alerts := alerts s @ [m]\<rparr>"

text \<open>
  \<^verbatim>\<open>
  function updateStorage() {
      localStorage.setItem('cart', JSON.stringify(cart));
      localStorage.setItem('bookmarks', JSON.stringify(bookmarks));
  }
  \<close>
\<close>

definition updateStorage :: "platform \<Rightarrow> app \<Rightarrow> app" where
  "updateStorage pf s =
     s\<lparr>localStorage :=
         setItem pf ''bookmarks'' (JSON_stringify pf (JArr (map JObj (bookmarks s))))
           (setItem pf ''cart'' (JSON_stringify pf (JArr (map JObj (cart s)))) (localStorage s))\<rparr>"

text \<open>The body \<open>{ movie_id: movie.id, title: movie.title, author: movie.author, price: movie.price }\<close>.\<close>

definition add_body :: "jsobj \<Rightarrow> jsval" where
  "add_body movie =
     JObj [(''movie_id'', get movie ''id''), (''title'', get movie ''title''),
           (''author'', get movie ''author''), (''price'', get movie ''price'')]"

definition addCartOnServer :: "platform \<Rightarrow> storage \<Rightarrow> jsobj \<Rightarrow> js_error + jsval" where
  "addCartOnServer pf ls movie =
     apiRequest pf ls ''/cart''
       \<lparr>opt_method = Some ''POST'', opt_headers = None,
        opt_body = body_text pf (JSON_stringify pf (add_body movie))\<rparr>"

definition removeCartOnServer :: "platform \<Rightarrow> storage \<Rightarrow> jsval \<Rightarrow> js_error + jsval" where
  "removeCartOnServer pf ls movieId =
     apiRequest pf ls (''/cart/'' @ ToString pf movieId)
       \<lparr>opt_method = Some ''DELETE'', opt_headers = None, opt_body = None\<rparr>"

definition addBookmarkOnServer :: "platform \<Rightarrow> storage \<Rightarrow> jsobj \<Rightarrow> js_error + jsval" where
  "addBookmarkOnServer pf ls movie =
     apiRequest pf ls ''/bookmarks''
       \<lparr>opt_method = Some ''POST'', opt_headers = None,
        opt_body = body_text pf (JSON_stringify pf (add_body movie))\<rparr>"

definition removeBookmarkOnServer :: "platform \<Rightarrow> storage \<Rightarrow> jsval \<Rightarrow> js_error + jsval" where
  "removeBookmarkOnServer pf ls movieId =
     apiRequest pf ls (''/bookmarks/'' @ ToString pf movieId)
       \<lparr>opt_method = Some ''DELETE'', opt_headers = None, opt_body = None\<rparr>"

text \<open>
  \<open>findIndex\<close>: the position of the first element that satisfies the test, \<open>None\<close> for
  the \<open>-1\<close> of JavaScript. \<open>splice(index, 1)\<close> removes the element at the position.
\<close>

fun findIndex :: "('a \<Rightarrow> bool) \<Rightarrow> 'a list \<Rightarrow> nat option" where
  "findIndex P [] = None"
| "findIndex P (x # xs) = (if P x then Some 0 else map_option Suc (findIndex P xs))"

definition splice1 :: "nat \<Rightarrow> 'a list \<Rightarrow> 'a list" where
  "splice1 index xs = take index xs @ drop (Suc index) xs"

definition same_id :: "platform \<Rightarrow> jsobj \<Rightarrow> jsobj \<Rightarrow> bool" where
  \<comment> \<open>\<open>String(item.id) === String(movie.id)\<close>\<close>
  "same_id pf movie item = (ToString pf (get item ''id'') = ToString pf (get movie ''id''))"

text \<open>
  The text of the selector \<open>`[data-id="${movie.id}"] .cart-btn`\<close>, from the text of the id
  and the class of the button. The engine that reads it is the platform's: for an id
  with a character that ends or escapes the quoted string, it may match another
  element or throw.
\<close>

definition selector_text :: "string \<Rightarrow> string \<Rightarrow> string" where
  "selector_text ident cls = ''[data-id='' @ [CHR 0x22] @ ident @ [CHR 0x22] @ ''] '' @ cls"

definition find_button :: "platform \<Rightarrow> app \<Rightarrow> jsobj \<Rightarrow> string \<Rightarrow> js_error + nat option" where
  "find_button pf s movie cls =
     querySelector pf (cards s) (selector_text (ToString pf (get movie ''id'')) cls)"

text \<open>
  \<open>button.textContent = glyph\<close>: a TypeError when \<open>button\<close> is \<open>null\<close>, with the message
  of the engine (here V8's).
\<close>

definition null_button :: js_error where
  "null_button = TypeError ''Cannot set properties of null (setting 'textContent')''"

definition set_cart_btn :: "nat option \<Rightarrow> string \<Rightarrow> app \<Rightarrow> js_error + app" where
  "set_cart_btn button glyph s =
     (case button of
        None \<Rightarrow> Inl null_button
      | Some b \<Rightarrow> Inr (s\<lparr>cards := (cards s)[b := (cards s ! b)\<lparr>cart_btn := Some glyph\<rparr>]\<rparr>))"

definition set_bookmark_btn :: "nat option \<Rightarrow> string \<Rightarrow> app \<Rightarrow> js_error + app" where
  "set_bookmark_btn button glyph s =
     (case button of
        None \<Rightarrow> Inl null_button
      | Some b \<Rightarrow> Inr (s\<lparr>cards := (cards s)[b := (cards s ! b)\<lparr>bookmark_btn := Some glyph\<rparr>]\<rparr>))"

text \<open>The glyphs (wastebasket, shopping cart, label) and the texts of the alerts.\<close>

definition glyph_remove :: string where
  "glyph_remove = [CHR 0xF0, CHR 0x9F, CHR 0x97, CHR 0x91, CHR 0xEF, CHR 0xB8, CHR 0x8F]"

definition glyph_cart :: string where
  "glyph_cart = [CHR 0xF0, CHR 0x9F, CHR 0x9B, CHR 0x92]"

definition glyph_bookmark :: string where
  "glyph_bookmark = [CHR 0xF0, CHR 0x9F, CHR 0x8F, CHR 0xB7, CHR 0xEF, CHR 0xB8, CHR 0x8F]"

definition film_quote :: string where
  \<comment> \<open>\<open>Film "\<close>\<close>
  "film_quote =
     [CHR 0xD0, CHR 0xA4, CHR 0xD0, CHR 0xB8, CHR 0xD0, CHR 0xBB, CHR 0xD1, CHR 0x8C, CHR 0xD0,
      CHR 0xBC, CHR 0x20, CHR 0x22]"

definition added_to_cart :: string where
  \<comment> \<open>\<open>" dobavlen v korzinu!\<close>\<close>
  "added_to_cart =
     [CHR 0x22, CHR 0x20, CHR 0xD0, CHR 0xB4, CHR 0xD0, CHR 0xBE, CHR 0xD0, CHR 0xB1, CHR 0xD0,
      CHR 0xB0, CHR 0xD0, CHR 0xB2, CHR 0xD0, CHR 0xBB, CHR 0xD0, CHR 0xB5, CHR 0xD0, CHR 0xBD,
      CHR 0x20, CHR 0xD0, CHR 0xB2, CHR 0x20, CHR 0xD0, CHR 0xBA, CHR 0xD0, CHR 0xBE, CHR 0xD1,
      CHR 0x80, CHR 0xD0, CHR 0xB7, CHR 0xD0, CHR 0xB8, CHR 0xD0, CHR 0xBD, CHR 0xD1, CHR 0x83,
      CHR 0x21]"

definition removed_from_cart :: string where
  \<comment> \<open>\<open>" udalyon iz korziny!\<close>\<close>
  "removed_from_cart =
     [CHR 0x22, CHR 0x20, CHR 0xD1, CHR 0x83, CHR 0xD0, CHR 0xB4, CHR 0xD0, CHR 0xB0, CHR 0xD0,
      CHR 0xBB, CHR 0xD1, CHR 0x91, CHR 0xD0, CHR 0xBD, CHR 0x20, CHR 0xD0, CHR 0xB8, CHR 0xD0,
      CHR 0xB7, CHR 0x20, CHR 0xD0, CHR 0xBA, CHR 0xD0, CHR 0xBE, CHR 0xD1, CHR 0x80, CHR 0xD0,
      CHR 0xB7, CHR 0xD0, CHR 0xB8, CHR 0xD0, CHR 0xBD, CHR 0xD1, CHR 0x8B, CHR 0x21]"

definition added_to_bookmarks :: string where
  \<comment> \<open>\<open>" dobavlen v zakladki!\<close>\<close>
  "added_to_bookmarks =
     [CHR 0x22, CHR 0x20, CHR 0xD0, CHR 0xB4, CHR 0xD0, CHR 0xBE, CHR 0xD0, CHR 0xB1, CHR 0xD0,
      CHR 0xB0, CHR 0xD0, CHR 0xB2, CHR 0xD0, CHR 0xBB, CHR 0xD0, CHR 0xB5, CHR 0xD0, CHR 0xBD,
      CHR 0x20, CHR 0xD0, CHR 0xB2, CHR 0x20, CHR 0xD0, CHR 0xB7, CHR 0xD0, CHR 0xB0, CHR 0xD0,
      CHR 0xBA, CHR 0xD0, CHR 0xBB, CHR 0xD0, CHR 0xB0, CHR 0xD0, CHR 0xB4, CHR 0xD0, CHR 0xBA,
      CHR 0xD0, CHR 0xB8, CHR 0x21]"

definition removed_from_bookmarks :: string where
  \<comment> \<open>\<open>" udalyon iz zakladok!\<close>\<close>
  "removed_from_bookmarks =
     [CHR 0x22, CHR 0x20, CHR 0xD1, CHR 0x83, CHR 0xD0, CHR 0xB4, CHR 0xD0, CHR 0xB0, CHR 0xD0,
      CHR 0xBB, CHR 0xD1, CHR 0x91, CHR 0xD0, CHR 0xBD, CHR 0x20, CHR 0xD0, CHR 0xB8, CHR 0xD0,
      CHR 0xB7, CHR 0x20, CHR 0xD0, CHR 0xB7, CHR 0xD0, CHR 0xB0, CHR 0xD0, CHR 0xBA, CHR 0xD0,
      CHR 0xBB, CHR 0xD0, CHR 0xB0, CHR 0xD0, CHR 0xB4, CHR 0xD0, CHR 0xBE, CHR 0xD0, CHR 0xBA,
      CHR 0x21]"

definition cart_error :: string where
  \<comment> \<open>\<open>Oshibka raboty s korzinoy\<close>\<close>
  "cart_error =
     [CHR 0xD0, CHR 0x9E, CHR 0xD1, CHR 0x88, CHR 0xD0, CHR 0xB8, CHR 0xD0, CHR 0xB1, CHR 0xD0,
      CHR 0xBA, CHR 0xD0, CHR 0xB0, CHR 0x20, CHR 0xD1, CHR 0x80, CHR 0xD0, CHR 0xB0, CHR 0xD0,
      CHR 0xB1, CHR 0xD0, CHR 0xBE, CHR 0xD1, CHR 0x82, CHR 0xD1, CHR 0x8B, CHR 0x20, CHR 0xD1,
      CHR 0x81, CHR 0x20, CHR 0xD0, CHR 0xBA, CHR 0xD0, CHR 0xBE, CHR 0xD1, CHR 0x80, CHR 0xD0,
      CHR 0xB7, CHR 0xD0, CHR 0xB8, CHR 0xD0, CHR 0xBD, CHR 0xD0, CHR 0xBE, CHR 0xD0, CHR 0xB9]"

definition bookmarks_error :: string where
  \<comment> \<open>\<open>Oshibka raboty s zakladkami\<close>\<close>
  "bookmarks_error =
     [CHR 0xD0, CHR 0x9E, CHR 0xD1, CHR 0x88, CHR 0xD0, CHR 0xB8, CHR 0xD0, CHR 0xB1, CHR 0xD0,
      CHR 0xBA, CHR 0xD0, CHR 0xB0, CHR 0x20, CHR 0xD1, CHR 0x80, CHR 0xD0, CHR 0xB0, CHR 0xD0,
      CHR 0xB1, CHR 0xD0, CHR 0xBE, CHR 0xD1, CHR 0x82, CHR 0xD1, CHR 0x8B, CHR 0x20, CHR 0xD1,
      CHR 0x81, CHR 0x20, CHR 0xD0, CHR 0xB7, CHR 0xD0, CHR 0xB0, CHR 0xD0, CHR 0xBA, CHR 0xD0,
      CHR 0xBB, CHR 0xD0, CHR 0xB0, CHR 0xD0, CHR 0xB4, CHR 0xD0, CHR 0xBA, CHR 0xD0, CHR 0xB0,
      CHR 0xD0, CHR 0xBC, CHR 0xD0, CHR 0xB8]"

definition film_alert :: "platform \<Rightarrow> jsobj \<Rightarrow> string \<Rightarrow> string" where
  \<comment> \<open>\<open>`Film "${movie.title}" ...`\<close>\<close>
  "film_alert pf movie what = film_quote @ ToString pf (get movie ''title'') @ what"

text \<open>
  \<^verbatim>\<open>
  async function toggleCart(movie) {
      const index = cart.findIndex(item => String(item.id) === String(movie.id));
      const button = document.querySelector(`[data-id="${movie.id}"] .cart-btn`);
      try {
          if (index === -1) {
              await addCartOnServer(movie);
              cart.push(movie);
              button.textContent = <wastebasket>;
              alert(`Film "${movie.title}" dobavlen v korzinu!`);
          } else {
              await removeCartOnServer(movie.id);
              cart.splice(index, 1);
              button.textContent = <shopping cart>;
              alert(`Film "${movie.title}" udalyon iz korziny!`);
          }
          updateStorage();
      } catch (e) {
          alert(e.message || 'Oshibka raboty s korzinoy');
      }
  }
  \<close>
  The body of \<open>try\<close> yields the state it has reached and the error it has thrown, if
  any: what it has written before the throw stays written. When the lookup of the
  button throws, which is before \<open>try\<close>, the call is rejected: no request is sent,
  nothing is written and nothing is shown.
\<close>

definition try_toggleCart :: "platform \<Rightarrow> app \<Rightarrow> jsobj \<Rightarrow> nat option \<Rightarrow> nat option \<Rightarrow> app \<times> js_error option" where
  "try_toggleCart pf s movie index button =
     (case index of
        None \<Rightarrow>
          (case addCartOnServer pf (localStorage s) movie of
             Inl e \<Rightarrow> (s, Some e)
           | Inr _ \<Rightarrow>
               (let s1 = s\<lparr>cart := cart s @ [movie]\<rparr>
                in case set_cart_btn button glyph_remove s1 of
                     Inl e \<Rightarrow> (s1, Some e)
                   | Inr s2 \<Rightarrow>
                       (updateStorage pf (alert (film_alert pf movie added_to_cart) s2), None)))
      | Some i \<Rightarrow>
          (case removeCartOnServer pf (localStorage s) (get movie ''id'') of
             Inl e \<Rightarrow> (s, Some e)
           | Inr _ \<Rightarrow>
               (let s1 = s\<lparr>cart := splice1 i (cart s)\<rparr>
                in case set_cart_btn button glyph_cart s1 of
                     Inl e \<Rightarrow> (s1, Some e)
                   | Inr s2 \<Rightarrow>
                       (updateStorage pf (alert (film_alert pf movie removed_from_cart) s2),
                        None))))"

definition toggleCart :: "platform \<Rightarrow> app \<Rightarrow> jsobj \<Rightarrow> app" where
  "toggleCart pf s movie =
     (let index = findIndex (same_id pf movie) (cart s)
      in case find_button pf s movie ''.cart-btn'' of
           Inl e \<Rightarrow> s
         | Inr button \<Rightarrow>
             (case try_toggleCart pf s movie index button of
                (s', None) \<Rightarrow> s'
              | (s', Some e) \<Rightarrow> alert (message_or e cart_error) s'))"

text \<open>\<open>toggleBookmark\<close> is the same function on the bookmarks, with its own endpoints, glyph and texts.\<close>

definition try_toggleBookmark :: "platform \<Rightarrow> app \<Rightarrow> jsobj \<Rightarrow> nat option \<Rightarrow> nat option \<Rightarrow> app \<times> js_error option" where
  "try_toggleBookmark pf s movie index button =
     (case index of
        None \<Rightarrow>
          (case addBookmarkOnServer pf (localStorage s) movie of
             Inl e \<Rightarrow> (s, Some e)
           | Inr _ \<Rightarrow>
               (let s1 = s\<lparr>bookmarks := bookmarks s @ [movie]\<rparr>
                in case set_bookmark_btn button glyph_remove s1 of
                     Inl e \<Rightarrow> (s1, Some e)
                   | Inr s2 \<Rightarrow>
                       (updateStorage pf (alert (film_alert pf movie added_to_bookmarks) s2),
                        None)))
      | Some i \<Rightarrow>
          (case removeBookmarkOnServer pf (localStorage s) (get movie ''id'') of
             Inl e \<Rightarrow> (s, Some e)
           | Inr _ \<Rightarrow>
               (let s1 = s\<lparr>bookmarks := splice1 i (bookmarks s)\<rparr>
                in case set_bookmark_btn button glyph_bookmark s1 of
                     Inl e \<Rightarrow> (s1, Some e)
                   | Inr s2 \<Rightarrow>
                       (updateStorage pf (alert (film_alert pf movie removed_from_bookmarks) s2),
                        None))))"

definition toggleBookmark :: "platform \<Rightarrow> app \<Rightarrow> jsobj \<Rightarrow> app" where
  "toggleBookmark pf s movie =
     (let index = findIndex (same_id pf movie) (bookmarks s)
      in case find_button pf s movie ''.bookmark-btn'' of
           Inl e \<Rightarrow> s
         | Inr button \<Rightarrow>
             (case try_toggleBookmark pf s movie index button of
                (s', None) \<Rightarrow> s'
              | (s', Some e) \<Rightarrow> alert (message_or e bookmarks_error) s'))"

text \<open>
  The server call a toggle issues, with its outcome: the add request when no entry of
  the collection has the id of the movie, the remove request otherwise; \<open>None\<close> when
  the toggle issues no call, the lookup of the button having thrown.
\<close>

definition cart_call :: "platform \<Rightarrow> app \<Rightarrow> jsobj \<Rightarrow> (js_error + jsval) option" where
  "cart_call pf s movie =
     (case find_button pf s movie ''.cart-btn'' of
        Inl e \<Rightarrow> None
      | Inr button \<Rightarrow>
          Some (case findIndex (same_id pf movie) (cart s) of
                  None \<Rightarrow> addCartOnServer pf (localStorage s) movie
                | Some i \<Rightarrow> removeCartOnServer pf (localStorage s) (get movie ''id'')))"

definition bookmark_call :: "platform \<Rightarrow> app \<Rightarrow> jsobj \<Rightarrow> (js_error + jsval) option" where
  "bookmark_call pf s movie =
     (case find_button pf s movie ''.bookmark-btn'' of
        Inl e \<Rightarrow> None
      | Inr button \<Rightarrow>
          Some (case findIndex (same_id pf movie) (bookmarks s) of
                  None \<Rightarrow> addBookmarkOnServer pf (localStorage s) movie
                | Some i \<Rightarrow> removeBookmarkOnServer pf (localStorage s) (get movie ''id'')))"

definition entries_with_id :: "platform \<Rightarrow> jsobj list \<Rightarrow> jsobj \<Rightarrow> nat" where
  \<comment> \<open>how many entries of a collection have the id of the movie, compared as strings\<close>
  "entries_with_id pf xs movie = length (filter (same_id pf movie) xs)"

text \<open>
  The invariant of a collection in the data model of the specification: its entries
  are unique by id, the ids compared as strings. The toggles keep it (see below).
\<close>

definition unique_ids :: "platform \<Rightarrow> jsobj list \<Rightarrow> bool" where
  "unique_ids pf xs = distinct (map (\<lambda>item. ToString pf (get item ''id'')) xs)"


subsection \<open>The sort pipeline: \<open>sortFilms\<close>\<close>

text \<open>
  \<open>Array.prototype.sort\<close> with a comparator. The language leaves the algorithm to the
  engine and fixes the result when the comparator is consistent: the elements in
  ascending order of the comparator, equal ones in their former order (the sort is
  stable). A comparator result that is \<open>NaN\<close> counts as 0. The model is the stable
  insertion sort: an element goes before the first one it does not come after.
\<close>

fun not_after :: "jsnum \<Rightarrow> bool" where
  "not_after NaN = True"
| "not_after NegInf = True"
| "not_after (Fin v) = (v \<le> 0)"
| "not_after PosInf = False"

fun insert_sorted :: "('a \<Rightarrow> 'a \<Rightarrow> jsnum) \<Rightarrow> 'a \<Rightarrow> 'a list \<Rightarrow> 'a list" where
  "insert_sorted cmp x [] = [x]"
| "insert_sorted cmp x (y # ys) =
     (if not_after (cmp x y) then x # y # ys else y # insert_sorted cmp x ys)"

definition Array_sort :: "('a \<Rightarrow> 'a \<Rightarrow> jsnum) \<Rightarrow> 'a list \<Rightarrow> 'a list" where
  "Array_sort cmp xs = foldr (insert_sorted cmp) xs []"

text \<open>
  \<^verbatim>\<open>
  function sortFilms(films, field) {
      return [...films].sort((a, b) => {
          let valA = a[field] ?? '';
          let valB = b[field] ?? '';
          if (field === 'price') {
              const numA = parseFloat(valA) || 0;
              const numB = parseFloat(valB) || 0;
              return numA - numB;
          }
          valA = String(valA).toLowerCase();
          valB = String(valB).toLowerCase();
          if (valA < valB) return -1;
          if (valA > valB) return 1;
          return 0;
      });
  }
  \<close>
  The comparator first. Strings compare by their code units, lexicographically
  (\<open>text_less\<close>).
\<close>

definition comparefn :: "platform \<Rightarrow> string \<Rightarrow> jsobj \<Rightarrow> jsobj \<Rightarrow> jsnum" where
  "comparefn pf field a b =
     (let valA = nullish (get a field) (JStr []);
          valB = nullish (get b field) (JStr [])
      in if field = ''price'' then
           (let numA = or_zero (parseFloat pf valA);
                numB = or_zero (parseFloat pf valB)
            in minus_num numA numB)
         else
           (let valA' = toLowerCase pf (ToString pf valA);
                valB' = toLowerCase pf (ToString pf valB)
            in if text_less valA' valB' then Fin (- 1)
               else if text_less valB' valA' then Fin 1
               else Fin 0))"

text \<open>
  Arrays are objects with identity: \<open>[...films]\<close> makes a new array, and \<open>sort\<close> sorts
  the array it is called on in place and returns it. The store holds the arrays of
  movie records by address; an address is an index below the length of the store.
\<close>

type_synonym addr = nat
type_synonym store = "jsobj list list"

definition spread :: "store \<Rightarrow> addr \<Rightarrow> store \<times> addr" where
  \<comment> \<open>\<open>[...films]\<close>: a new array with the same elements\<close>
  "spread st films = (st @ [st ! films], length st)"

definition sort_in_place :: "store \<Rightarrow> addr \<Rightarrow> (jsobj \<Rightarrow> jsobj \<Rightarrow> jsnum) \<Rightarrow> store \<times> addr" where
  "sort_in_place st arr cmp = (st[arr := Array_sort cmp (st ! arr)], arr)"

definition sortFilms :: "platform \<Rightarrow> store \<Rightarrow> addr \<Rightarrow> string \<Rightarrow> store \<times> addr" where
  "sortFilms pf st films field =
     (let (st1, copy) = spread st films
      in sort_in_place st1 copy (comparefn pf field))"

text \<open>
  The two sort keys the comparator compares by: the numeric parse of the price, 0 when
  the price is missing or not numeric, and the lower-case text of any other field, the
  empty text when the field is missing. Numbers are in the order of their values,
  texts in the order of their code units.
\<close>

definition price_key :: "platform \<Rightarrow> jsobj \<Rightarrow> jsnum" where
  "price_key pf a = or_zero (parseFloat pf (nullish (get a ''price'') (JStr [])))"

definition text_key :: "platform \<Rightarrow> string \<Rightarrow> jsobj \<Rightarrow> string" where
  "text_key pf field a = toLowerCase pf (ToString pf (nullish (get a field) (JStr [])))"

definition text_le :: "string \<Rightarrow> string \<Rightarrow> bool" where
  "text_le a b = (utf16 a \<le> utf16 b)"


subsection \<open>The listing renderer: the source of a card's image\<close>

text \<open>
  \<^verbatim>\<open>
  function getImagePathForFilm(title) {
      const titleMapping = { 'The Dark Knight': '/images_for_movies/the_dark_knight.jpg', ... };
      if (titleMapping[title]) { return titleMapping[title]; }
      const titleLower = title.toLowerCase();
      for (const [key, value] of Object.entries(titleMapping)) {
          if (key.toLowerCase() === titleLower) { return value; }
      }
      return '/images_for_movies/placeholder.jpg';
  }
  \<close>
  \<open>titleMapping\<close> is an object literal: \<open>titleMapping[title]\<close> reads its own properties and
  the inherited ones, under the text of \<open>title\<close> as the key; \<open>Object.entries\<close> lists its
  own properties only. \<open>title.toLowerCase()\<close> is a TypeError unless \<open>title\<close> is a string.
\<close>

definition titleMapping :: jsobj where
  "titleMapping =
     [(''The Dark Knight'', JStr ''/images_for_movies/the_dark_knight.jpg''),
      (''Gladiator'', JStr ''/images_for_movies/gladiator.jpg''),
      (''Mad Max: Fury Road'', JStr ''/images_for_movies/mad_max_fury_road.jpg''),
      (''Forrest Gump'', JStr ''/images_for_movies/forrest_gump.jpg''),
      (''Fight Club'', JStr ''/images_for_movies/fight_club.jpg''),
      (''Alien'', JStr ''/images_for_movies/alien.jpg''),
      (''Conjuring'', JStr ''/images_for_movies/conjuring.jpg''),
      (''Conjuring 2'', JStr ''/images_for_movies/conjuring_2.jpg''),
      (''Inception'', JStr ''/images_for_movies/inception.jpg''),
      (''The Matrix'', JStr ''/images_for_movies/the_matrix.jpg''),
      (''Interstellar'', JStr ''/images_for_movies/interstellar.jpg''),
      (''Lord of the Rings: The Return of the King'',
         JStr ''/images_for_movies/lord_of_the_rings_the_return_of_the_king.jpg''),
      (''Amelie'', JStr ''/images_for_movies/amelie.jpg''),
      (''The Shawshank Redemption'', JStr ''/images_for_movies/the_shawshank_redemption.jpg''),
      (''Star Wars'', JStr ''/images_for_movies/star_wars.jpg'')]"

definition placeholder :: string where
  "placeholder = ''/images_for_movies/placeholder.jpg''"

definition not_a_function :: "string \<Rightarrow> js_error" where
  "not_a_function what = TypeError (what @ '' is not a function'')"

definition no_toLowerCase :: "platform \<Rightarrow> jsval \<Rightarrow> js_error" where
  \<comment> \<open>what \<open>title.toLowerCase()\<close> throws on a title that is not a string\<close>
  "no_toLowerCase pf title =
     (if title = JUndefined \<or> title = JNull
      then TypeError (''Cannot read properties of '' @ ToString pf title @ '' (reading 'toLowerCase')'')
      else not_a_function ''title.toLowerCase'')"

definition getImagePathForFilm :: "platform \<Rightarrow> jsval \<Rightarrow> js_error + jsval" where
  "getImagePathForFilm pf title =
     (if truthy (get titleMapping (ToString pf title))
        then Inr (get titleMapping (ToString pf title))
      else
        (case title of
           JStr t \<Rightarrow>
             (let titleLower = toLowerCase pf t
              in case find (\<lambda>(key, value). toLowerCase pf key = titleLower) titleMapping of
                   Some (key, value) \<Rightarrow> Inr value
                 | None \<Rightarrow> Inr (JStr placeholder))
         | _ \<Rightarrow> Inl (no_toLowerCase pf title)))"

text \<open>
  The image source \<open>renderMovies\<close> computes for a movie record:
  \<^verbatim>\<open>
  let imageSrc;
  if (film.movie_base64) {
      if (film.movie_base64.startsWith('data:image/')) {
          imageSrc = film.movie_base64;
      } else {
          imageSrc = `data:image/jpeg;base64,${film.movie_base64}`;
      }
  } else {
      imageSrc = getImagePathForFilm(film.title);
  }
  \<close>
\<close>

definition imageSrc :: "platform \<Rightarrow> jsobj \<Rightarrow> js_error + jsval" where
  "imageSrc pf film =
     (let movie_base64 = get film ''movie_base64''
      in if truthy movie_base64 then
           (case movie_base64 of
              JStr payload \<Rightarrow>
                if startsWith payload ''data:image/'' then Inr movie_base64
                else Inr (JStr (''data:image/jpeg;base64,'' @ ToString pf movie_base64))
            | _ \<Rightarrow> Inl (not_a_function ''film.movie_base64.startsWith''))
         else getImagePathForFilm pf (get film ''title''))"

subsection \<open>An example platform, and states of the page\<close>

text \<open>
  For the examples below, built-ins given by simple definitions, each of which agrees
  with a browser's on the texts and numbers the examples use: the text of a number in
  plain decimal notation (as in a browser for an integer below \<open>10^21\<close> and for a short
  decimal fraction); the parse of a decimal literal without rounding (as in a browser
  where binary64 holds the value exactly, after ASCII white space); the lower case of
  the letters of ASCII (as in a browser on a text of ASCII); and a selector engine that
  finds the card whose \<open>data-id\<close> is literally the id of the selector (as in a browser
  for an id without a character that ends or escapes the quoted string).
\<close>

definition digit_char :: "nat \<Rightarrow> char" where
  "digit_char d = char_of (48 + d)"

fun digits :: "nat \<Rightarrow> string" where
  "digits n = (if n < 10 then [digit_char n] else digits (n div 10) @ [digit_char (n mod 10)])"

fun frac_digits :: "nat \<Rightarrow> rat \<Rightarrow> string" where
  "frac_digits 0 r = []"
| "frac_digits (Suc n) r =
     (if r = 0 then []
      else (let d = nat \<lfloor>r * 10\<rfloor> in digit_char d # frac_digits n (r * 10 - of_nat d)))"

definition decimal_toString :: "rat \<Rightarrow> string" where
  "decimal_toString r =
     (let a = \<bar>r\<bar>; ip = nat \<lfloor>a\<rfloor>; fp = a - of_nat ip
      in (if r < 0 then ''-'' else []) @ digits ip @
         (if fp = 0 then [] else ''.'' @ frac_digits 17 fp))"

definition is_digit :: "char \<Rightarrow> bool" where
  "is_digit c = (CHR ''0'' \<le> c \<and> c \<le> CHR ''9'')"

definition nat_of_digits :: "string \<Rightarrow> nat" where
  "nat_of_digits ds = foldl (\<lambda>n c. 10 * n + (of_char c - 48)) 0 ds"

definition pow10 :: "int \<Rightarrow> rat" where
  "pow10 e = (if 0 \<le> e then 10 ^ nat e else 1 / 10 ^ nat (- e))"

definition exponent_part :: "string \<Rightarrow> int" where
  \<comment> \<open>the value of an ExponentPart at the head of the text, 0 when there is none\<close>
  "exponent_part s =
     (case s of
        [] \<Rightarrow> 0
      | c # r \<Rightarrow>
          if c = CHR ''e'' \<or> c = CHR ''E'' then
            (let neg = (r \<noteq> [] \<and> hd r = CHR ''-'');
                 ds = takeWhile is_digit
                        (if r \<noteq> [] \<and> (hd r = CHR ''-'' \<or> hd r = CHR ''+'') then tl r else r)
             in if ds = [] then 0
                else if neg then - int (nat_of_digits ds) else int (nat_of_digits ds))
          else 0)"

definition ascii_space :: "char \<Rightarrow> bool" where
  "ascii_space c = (c \<in> set [CHR 0x09, CHR 0x0A, CHR 0x0B, CHR 0x0C, CHR 0x0D, CHR 0x20])"

definition decimal_parseFloat :: "string \<Rightarrow> jsnum" where
  "decimal_parseFloat s =
     (let t = dropWhile ascii_space s;
          neg = (t \<noteq> [] \<and> hd t = CHR ''-'');
          u = (if t \<noteq> [] \<and> (hd t = CHR ''-'' \<or> hd t = CHR ''+'') then tl t else t)
      in if prefix ''Infinity'' u then (if neg then NegInf else PosInf)
         else
           (let ip = takeWhile is_digit u;
                r1 = dropWhile is_digit u;
                dot = (r1 \<noteq> [] \<and> hd r1 = CHR ''.'');
                fp = (if dot then takeWhile is_digit (tl r1) else []);
                r2 = (if dot then dropWhile is_digit (tl r1) else r1)
            in if ip = [] \<and> fp = [] then NaN
               else Fin ((if neg then - 1 else 1) *
                         (of_nat (nat_of_digits (ip @ fp)) / 10 ^ length fp) *
                         pow10 (exponent_part r2))))"

definition lower_char :: "char \<Rightarrow> char" where
  "lower_char c = (if CHR ''A'' \<le> c \<and> c \<le> CHR ''Z'' then char_of (of_char c + (32::nat)) else c)"

definition ascii_toLowerCase :: "string \<Rightarrow> string" where
  "ascii_toLowerCase s = map lower_char s"

definition matches :: "string \<Rightarrow> card \<Rightarrow> bool" where
  "matches sel c =
     (case data_id c of
        None \<Rightarrow> False
      | Some ident \<Rightarrow>
          (sel = selector_text ident ''.cart-btn'' \<and> cart_btn c \<noteq> None) \<or>
          (sel = selector_text ident ''.bookmark-btn'' \<and> bookmark_btn c \<noteq> None))"

definition literal_querySelector :: "card list \<Rightarrow> string \<Rightarrow> js_error + nat option" where
  "literal_querySelector cs sel = Inr (findIndex (matches sel) cs)"

text \<open>
  The example platform: a browser off the network (every \<open>fetch\<close> is rejected). The
  platforms with a server differ in \<open>fetch\<close> and in \<open>JSON_parse\<close>, which answers as
  \<open>JSON.parse\<close> does on the texts that server sends: a server that answers every request
  with success and an empty body; one that answers every request with a failure status
  and the body \<open>Unauthorized\<close>, which is not JSON; and one that accepts the login with the
  body \<open>{}\<close>, which carries no \<open>access_token\<close>.
\<close>

definition browser :: platform where
  "browser =
     \<lparr>fetch = (\<lambda>req. Rejected (TypeError ''Failed to fetch'')),
      JSON_parse = (\<lambda>t. None),
      protocol = ''https:'', origin = ''https://videoteka.example'',
      Number_toString = decimal_toString,
      parseFloat_text = decimal_parseFloat,
      lower_case = ascii_toLowerCase,
      querySelector = literal_querySelector\<rparr>"

definition server_ok :: platform where
  "server_ok = browser\<lparr>fetch := (\<lambda>req. Resolved \<lparr>res_ok = True, res_text = []\<rparr>)\<rparr>"

definition server_failing :: platform where
  "server_failing =
     browser\<lparr>fetch := (\<lambda>req. Resolved \<lparr>res_ok = False, res_text = ''Unauthorized''\<rparr>)\<rparr>"

definition server_no_token :: platform where
  "server_no_token =
     browser\<lparr>fetch := (\<lambda>req. Resolved \<lparr>res_ok = True, res_text = ''{}''\<rparr>),
             JSON_parse := (\<lambda>t. if t = ''{}'' then Some (JObj []) else None)\<rparr>"

text \<open>A page with the two session forms, the registration form showing.\<close>

definition page0 :: page where
  "page0 = [\<lparr>el_id = Some ''registerForm'', classList = [''form'', ''active'']\<rparr>,
            \<lparr>el_id = Some ''loginForm'', classList = [''form'']\<rparr>]"

text \<open>
  A login page with the fields filled in and a token of an earlier session in the
  storage.
\<close>

definition login_page0 :: login_page where
  "login_page0 =
     \<lparr>loginUsername = '' anna '', loginPassword = ''secret'', loginError_text = [],
      loginError_classes = [''error''], storage = [(''token'', ''t0'')], href = None\<rparr>"

text \<open>
  States of the store: an empty cart, one bookmark and one card with both buttons; the
  cart holding the same movie twice, which the data model excludes; and a page whose
  only card has no \<open>data-id\<close> attribute, with the descriptor the click handler builds
  from such a card (\<open>card.getAttribute('data-id')\<close> is \<open>null\<close>), for which the selector
  \<open>[data-id="null"] .cart-btn\<close> matches no button.
\<close>

definition alien :: jsobj where
  "alien = [(''id'', JStr ''7''), (''title'', JStr ''Alien''), (''author'', JStr ''Ridley Scott''),
            (''price'', JStr ''5'')]"

definition page1 :: app where
  "page1 =
     \<lparr>cart = [], bookmarks = [alien], localStorage = [],
      cards = [\<lparr>data_id = Some ''7'', cart_btn = Some glyph_cart,
                bookmark_btn = Some glyph_remove\<rparr>],
      alerts = []\<rparr>"

definition page_twice :: app where
  "page_twice = page1\<lparr>cart := [alien, alien]\<rparr>"

definition page_no_button :: app where
  "page_no_button =
     \<lparr>cart = [], bookmarks = [], localStorage = [],
      cards = [\<lparr>data_id = None, cart_btn = Some glyph_cart,
                bookmark_btn = Some glyph_bookmark\<rparr>],
      alerts = []\<rparr>"

definition alien_no_id :: jsobj where
  "alien_no_id = [(''id'', JNull), (''title'', JStr ''Alien''),
                  (''author'', JStr ''Ridley Scott''), (''price'', JStr ''5'')]"

text \<open>
  Lists of movie records: the cached list of the specification's example, B at 20,
  then A at 5; and a list whose titles differ in case, whose prices are a number, a
  text that is not numeric and a missing one.
\<close>

definition cache :: "jsobj list" where
  "cache = [[(''title'', JStr ''B''), (''price'', JStr ''20'')],
            [(''title'', JStr ''A''), (''price'', JStr ''5'')]]"

definition zorro :: jsobj where
  "zorro = [(''title'', JStr ''Zorro''), (''price'', JNum 20)]"

definition brat :: jsobj where
  "brat = [(''title'', JStr ''brat''), (''price'', JStr ''free'')]"

definition arena :: jsobj where
  "arena = [(''title'', JStr ''Arena'')]"

definition film_alien :: jsobj where
  "film_alien = [(''title'', JStr ''alien''), (''price'', JStr ''5.5'')]"

definition listing :: "jsobj list" where
  "listing = [zorro, film_alien, brat, arena]"


section \<open>Properties\<close>

subsection \<open>\<open>showForm\<close>\<close>

lemma getElementById_bound:
  "getElementById doc formId = Some t \<Longrightarrow> t < length doc"
  by (induction doc arbitrary: t) (auto split: if_splits)

lemma getElementById_deactivate [simp]:
  "getElementById (map deactivate doc) formId = getElementById doc formId"
  by (induction doc) (auto simp: deactivate_def remove_class_def)

lemma deactivate_inactive:
  "is_form e \<Longrightarrow> \<not> active (deactivate e)"
  by (auto simp: deactivate_def is_form_def active_def contains_def remove_class_def)

lemma add_class_active: "active (add_class ''active'' e)"
  by (auto simp: add_class_def active_def contains_def)

lemma is_form_deactivate [simp]: "is_form (deactivate e) = is_form e"
  by (auto simp: deactivate_def is_form_def contains_def remove_class_def)

lemma is_form_add_class [simp]: "is_form (add_class ''active'' e) = is_form e"
  by (auto simp: add_class_def is_form_def contains_def)

lemma length_showForm [simp]: "length (showForm doc formId) = length doc"
  by (simp add: showForm_def Let_def split: option.splits)

lemma showForm_nth:
  "i < length doc \<Longrightarrow>
   showForm doc formId ! i =
     (if getElementById doc formId = Some i then add_class ''active'' (deactivate (doc ! i))
      else deactivate (doc ! i))"
  by (auto simp: showForm_def Let_def nth_list_update split: option.splits)

lemma showForm_only_target:
  "i < length doc \<Longrightarrow> is_form (showForm doc formId ! i) \<Longrightarrow> active (showForm doc formId ! i)
     \<Longrightarrow> getElementById doc formId = Some i"
  by (auto simp: showForm_nth deactivate_inactive split: if_splits)

lemma showForm_target_active:
  assumes "getElementById doc formId = Some t"
  shows "active (showForm doc formId ! t)"
proof -
  have "t < length doc" using assms by (rule getElementById_bound)
  then show ?thesis using assms by (simp add: showForm_nth add_class_active)
qed

lemma active_forms_showForm_subset:
  "set (active_forms (showForm doc formId)) \<subseteq> set_option (getElementById doc formId)"
  using showForm_only_target [of _ doc formId] by (auto simp: active_forms_def)

lemma active_forms_showForm_le1: "length (active_forms (showForm doc formId)) \<le> 1"
proof -
  let ?a = "active_forms (showForm doc formId)"
  have "distinct ?a" by (simp add: active_forms_def)
  then have "length ?a = card (set ?a)" by (simp add: distinct_card)
  also have "\<dots> \<le> card (set_option (getElementById doc formId))"
    by (rule card_mono) (simp_all add: active_forms_showForm_subset)
  also have "\<dots> \<le> 1" by (cases "getElementById doc formId") simp_all
  finally show ?thesis .
qed

lemma deactivate_id: "\<not> (is_form e \<and> active e) \<Longrightarrow> deactivate e = e"
  by (auto simp: deactivate_def is_form_def active_def)

lemma showForm_missing:
  assumes "getElementById doc formId = None"
  shows "showForm doc formId = map deactivate doc"
    and "active_forms (showForm doc formId) = []"
    and "active_forms doc = [] \<Longrightarrow> showForm doc formId = doc"
proof -
  show E: "showForm doc formId = map deactivate doc" using assms by (simp add: showForm_def)
  show "active_forms (showForm doc formId) = []"
    using active_forms_showForm_subset [of doc formId] assms by simp
  assume "active_forms doc = []"
  then have "\<And>e. e \<in> set doc \<Longrightarrow> \<not> (is_form e \<and> active e)"
    by (auto simp: active_forms_def filter_empty_conv in_set_conv_nth)
  then have "map deactivate doc = map id doc"
    by (intro map_cong refl) (simp add: deactivate_id)
  then show "showForm doc formId = doc" using E by simp
qed

text \<open>
  Claim C7, as amended. After \<open>showForm doc formId\<close> the only form that can carry
  \<open>active\<close> is the target (the first element with that id), which carries it when
  it exists; so at most one form is active. When no element has the id, every form has
  been deactivated and nothing else has changed: the call leaves the page as it was
  only if no form was active before.
\<close>

theorem showForm_active:
  "length (showForm doc formId) = length doc \<and>
   (\<forall>i<length doc. is_form (showForm doc formId ! i) \<and> active (showForm doc formId ! i)
        \<longrightarrow> getElementById doc formId = Some i) \<and>
   (\<forall>t. getElementById doc formId = Some t \<longrightarrow> active (showForm doc formId ! t)) \<and>
   length (active_forms (showForm doc formId)) \<le> 1 \<and>
   (getElementById doc formId = None \<longrightarrow>
      showForm doc formId = map deactivate doc \<and> active_forms (showForm doc formId) = [] \<and>
      (active_forms doc = [] \<longrightarrow> showForm doc formId = doc))"
proof (intro conjI allI impI)
  show "length (showForm doc formId) = length doc" by (rule length_showForm)
  show "length (active_forms (showForm doc formId)) \<le> 1" by (rule active_forms_showForm_le1)
next
  fix i assume "i < length doc"
    and "is_form (showForm doc formId ! i) \<and> active (showForm doc formId ! i)"
  then show "getElementById doc formId = Some i" by (blast intro: showForm_only_target)
next
  fix t assume "getElementById doc formId = Some t"
  then show "active (showForm doc formId ! t)" by (rule showForm_target_active)
next
  assume n: "getElementById doc formId = None"
  show "showForm doc formId = map deactivate doc" by (rule showForm_missing(1) [OF n])
  show "active_forms (showForm doc formId) = []" by (rule showForm_missing(2) [OF n])
  assume "active_forms doc = []"
  then show "showForm doc formId = doc" by (rule showForm_missing(3) [OF n])
qed

theorem showForm_active_witness:
  "getElementById page0 ''loginForm'' = Some 1 \<and>
   active (showForm page0 ''loginForm'' ! 1) \<and>
   getElementById page0 ''resetForm'' = None \<and>
   active_forms (showForm page0 ''resetForm'') = []"
proof -
  have t: "getElementById page0 ''loginForm'' = Some 1" by (simp add: page0_def)
  have n: "getElementById page0 ''resetForm'' = None" by (simp add: page0_def)
  show ?thesis
    using t n showForm_active [of page0 "''loginForm''"] showForm_active [of page0 "''resetForm''"]
    by blast
qed

text \<open>
  Claim C7 as stated fails: with no element of id \<open>resetForm\<close> on the page, the call is
  not a no-op, it deactivates the registration form that was showing.
\<close>

theorem showForm_missing_target_counterexample:
  "getElementById page0 ''resetForm'' = None \<and> showForm page0 ''resetForm'' \<noteq> page0"
  by (simp add: page0_def showForm_def deactivate_def contains_def remove_class_def)

subsection \<open>\<open>apiRequest\<close>\<close>

lemma new_Error_JStr [simp]: "new_Error pf (JStr s) = Error s"
  by (simp add: new_Error_def)

lemma failure_eq: "failure pf data = Error (message_of_body pf data)"
proof -
  have s: "\<And>m. new_Error pf (case m of JStr s \<Rightarrow> m | _ \<Rightarrow> JSON_stringify pf m)
              = Error (stringified pf m)"
    by (simp add: stringified_def JSON_stringify_def new_Error_def
          split: jsval.splits option.splits)
  show ?thesis
    by (simp add: failure_def failure_message_def message_of_body_def or_else_def s Let_def)
       (simp add: stringified_def)
qed

text \<open>
  Claim C5. For every response the request helper receives: an empty body parses to
  the empty object; a body that is not empty and not valid JSON becomes
  \<open>{ detail: <the text> }\<close>; a body that is valid JSON becomes its value; on a failure
  status the helper throws an \<open>Error\<close> whose message is the \<open>detail\<close> field of the parsed
  body, else its \<open>message\<close> field, else the generic phrase, a field that is not a string
  being stringified (\<open>message_of_body\<close>); on a success status it returns the parsed body.
\<close>

theorem apiRequest_outcome:
  assumes "fetch pf (the_request pf ls path opts) = Resolved res"
  shows "(res_text res = [] \<longrightarrow> parse_body pf (res_text res) = JObj []) \<and>
         (res_text res \<noteq> [] \<and> JSON_parse pf (res_text res) = None \<longrightarrow>
            parse_body pf (res_text res) = JObj [(''detail'', JStr (res_text res))]) \<and>
         (\<forall>v. res_text res \<noteq> [] \<and> JSON_parse pf (res_text res) = Some v \<longrightarrow>
            parse_body pf (res_text res) = v) \<and>
         (\<not> res_ok res \<longrightarrow>
            apiRequest pf ls path opts
              = Inl (Error (message_of_body pf (parse_body pf (res_text res))))) \<and>
         (res_ok res \<longrightarrow> apiRequest pf ls path opts = Inr (parse_body pf (res_text res)))"
  using assms by (simp add: apiRequest_def parse_body_def failure_eq Let_def)

theorem apiRequest_outcome_witness:
  "fetch server_failing (the_request server_failing [] ''/cart'' no_options)
     = Resolved \<lparr>res_ok = False, res_text = ''Unauthorized''\<rparr> \<and>
   parse_body server_failing ''Unauthorized'' = JObj [(''detail'', JStr ''Unauthorized'')] \<and>
   apiRequest server_failing [] ''/cart'' no_options = Inl (Error ''Unauthorized'') \<and>
   apiRequest server_ok [] ''/cart'' no_options = Inr (JObj [])"
proof -
  have f: "fetch server_failing (the_request server_failing [] ''/cart'' no_options)
     = Resolved \<lparr>res_ok = False, res_text = ''Unauthorized''\<rparr>"
    by (simp add: server_failing_def browser_def)
  have k: "fetch server_ok (the_request server_ok [] ''/cart'' no_options)
     = Resolved \<lparr>res_ok = True, res_text = []\<rparr>"
    by (simp add: server_ok_def browser_def)
  have p: "parse_body server_failing ''Unauthorized'' = JObj [(''detail'', JStr ''Unauthorized'')]"
    by (simp add: parse_body_def server_failing_def browser_def)
  have m: "message_of_body server_failing (JObj [(''detail'', JStr ''Unauthorized'')])
             = ''Unauthorized''"
    by (simp add: message_of_body_def stringified_def get_def)
  show ?thesis
    using apiRequest_outcome [OF f] apiRequest_outcome [OF k] f p m by simp
qed

text \<open>
  Claim C6, as amended. The headers of every request are the default
  \<open>Content-Type: application/json\<close> overridden by the caller's headers, except for
  \<open>Authorization\<close> when a token that is not empty is stored: then it is
  \<open>Bearer <token>\<close>, whatever the caller supplied.
\<close>

theorem request_headers_sent:
  "req_headers (the_request pf ls path opts) name =
     (let caller = (case opt_headers opts of None \<Rightarrow> Map.empty | Some h \<Rightarrow> h);
          merged = (case caller name of
                      Some v \<Rightarrow> Some v
                    | None \<Rightarrow> if name = ''Content-Type'' then Some ''application/json'' else None)
      in case getItem ls ''token'' of
           None \<Rightarrow> merged
         | Some t \<Rightarrow>
             if t \<noteq> [] \<and> name = ''Authorization'' then Some (''Bearer '' @ t) else merged)"
  by (auto simp: the_request_def request_headers_def Let_def map_add_def
           split: option.splits)

text \<open>
  Claim C6 as stated fails: with the token \<open>t1\<close> stored, a caller that supplies its own
  \<open>Authorization\<close> header has it replaced by \<open>Bearer t1\<close>.
\<close>

theorem caller_authorization_counterexample:
  "(let opts = \<lparr>opt_method = None, opt_headers = Some [''Authorization'' \<mapsto> ''Basic abc''],
                 opt_body = None\<rparr>;
        sent = req_headers (the_request server_ok [(''token'', ''t1'')] ''/cart'' opts)
    in sent ''Authorization'' = Some ''Bearer t1'' \<and> sent ''Authorization'' \<noteq> Some ''Basic abc'')"
  by (simp add: the_request_def request_headers_def getItem_def)

subsection \<open>The login form\<close>

text \<open>
  Claim C10. A login submission with a user name (after trimming) and a password that
  are not empty, whose gateway call succeeds with a body that carries no
  \<open>access_token\<close> field, leaves the local storage as it was (the token is neither
  written nor removed) and still navigates to the landing page \<open>/home.html\<close>.
\<close>

theorem login_without_token:
  assumes "trim (loginUsername s) \<noteq> []" and "loginPassword s \<noteq> []"
    and "login_request pf s = Inr data"
    and "member data ''access_token'' = JUndefined"
  shows "storage (login_submit pf s) = storage s \<and>
         href (login_submit pf s) = Some ''/home.html''"
  using assms by (simp add: login_submit_def clear_login_error_def Let_def)

theorem login_without_token_witness:
  "trim (loginUsername login_page0) \<noteq> [] \<and> loginPassword login_page0 \<noteq> [] \<and>
   login_request server_no_token login_page0 = Inr (JObj []) \<and>
   member (JObj []) ''access_token'' = JUndefined \<and>
   storage (login_submit server_no_token login_page0) = [(''token'', ''t0'')] \<and>
   href (login_submit server_no_token login_page0) = Some ''/home.html''"
proof -
  have u: "trim (loginUsername login_page0) \<noteq> []"
    by (simp add: login_page0_def trim_def WhiteSpace_def)
  have p: "loginPassword login_page0 \<noteq> []" by (simp add: login_page0_def)
  have r: "login_request server_no_token login_page0 = Inr (JObj [])"
    by (simp add: login_request_def apiRequest_def server_no_token_def browser_def parse_body_def)
  have m: "member (JObj []) ''access_token'' = JUndefined"
    by (simp add: get_def Object_prototype_def)
  show ?thesis
    using login_without_token [OF u p r m] u p r m by (simp add: login_page0_def)
qed


subsection \<open>The toggles\<close>


lemma findIndex_Some:
  "findIndex P xs = Some i \<Longrightarrow> i < length xs \<and> P (xs ! i) \<and> (\<forall>j<i. \<not> P (xs ! j))"
proof (induction xs arbitrary: i)
  case Nil
  then show ?case by simp
next
  case (Cons x xs)
  show ?case
  proof (cases "P x")
    case True
    then show ?thesis using Cons.prems by simp
  next
    case False
    then obtain k where k: "findIndex P xs = Some k" "i = Suc k"
      using Cons.prems by auto
    have "k < length xs \<and> P (xs ! k) \<and> (\<forall>j<k. \<not> P (xs ! j))"
      using Cons.IH [OF k(1)] .
    then show ?thesis using False k(2) by (auto simp: less_Suc_eq_0_disj)
  qed
qed

lemma length_filter_splice1:
  "findIndex P xs = Some i \<Longrightarrow> Suc (length (filter P (splice1 i xs))) = length (filter P xs)"
proof (induction xs arbitrary: i)
  case Nil
  then show ?case by simp
next
  case (Cons x xs)
  show ?case
  proof (cases "P x")
    case True
    then show ?thesis using Cons.prems by (simp add: splice1_def)
  next
    case False
    then obtain k where k: "findIndex P xs = Some k" "i = Suc k"
      using Cons.prems by auto
    show ?thesis using Cons.IH [OF k(1)] False k(2) by (simp add: splice1_def)
  qed
qed





lemma same_id_self [simp]: "same_id pf movie movie"
  by (simp add: same_id_def)

lemma alert_fields [simp]:
  "cart (alert m s) = cart s" "bookmarks (alert m s) = bookmarks s"
  "localStorage (alert m s) = localStorage s" "cards (alert m s) = cards s"
  "alerts (alert m s) = alerts s @ [m]"
  by (simp_all add: alert_def)

lemma updateStorage_fields [simp]:
  "cart (updateStorage pf s) = cart s" "bookmarks (updateStorage pf s) = bookmarks s"
  "cards (updateStorage pf s) = cards s" "alerts (updateStorage pf s) = alerts s"
  by (simp_all add: updateStorage_def)

lemma set_cart_btn_fields:
  "set_cart_btn button g s = Inr s' \<Longrightarrow>
     cart s' = cart s \<and> bookmarks s' = bookmarks s \<and> localStorage s' = localStorage s \<and>
     alerts s' = alerts s"
  by (auto simp: set_cart_btn_def split: option.splits)


lemma toggle_lookup_throws:
  "find_button pf s movie ''.cart-btn'' = Inl e \<Longrightarrow> toggleCart pf s movie = s"
  "find_button pf s movie ''.bookmark-btn'' = Inl e \<Longrightarrow> toggleBookmark pf s movie = s"
  by (simp_all add: toggleCart_def toggleBookmark_def)

lemma toggleCart_failure:
  assumes "cart_call pf s movie = Some (Inl e)"
  shows "toggleCart pf s movie = alert (message_or e cart_error) s"
  using assms
  by (simp add: toggleCart_def try_toggleCart_def cart_call_def Let_def
        split: option.splits sum.splits)

lemma toggleBookmark_failure:
  assumes "bookmark_call pf s movie = Some (Inl e)"
  shows "toggleBookmark pf s movie = alert (message_or e bookmarks_error) s"
  using assms
  by (simp add: toggleBookmark_def try_toggleBookmark_def bookmark_call_def Let_def
        split: option.splits sum.splits)

lemma toggleCart_success_cart:
  assumes "cart_call pf s movie = Some (Inr d)"
  shows "cart (toggleCart pf s movie) =
           (case findIndex (same_id pf movie) (cart s) of
              None \<Rightarrow> cart s @ [movie]
            | Some i \<Rightarrow> splice1 i (cart s))"
    and "bookmarks (toggleCart pf s movie) = bookmarks s"
  using assms
  by (auto simp: toggleCart_def try_toggleCart_def cart_call_def Let_def
        split: option.splits sum.splits dest: set_cart_btn_fields)





text \<open>
  Claim C1. When the server call a toggle issues fails (the add or the remove request
  throws), the collections, the local storage and the cards are as before the call:
  no entry is added or removed, no snapshot is rewritten. The failure is shown by one
  alert. This holds for \<open>toggleCart\<close> and for \<open>toggleBookmark\<close>.
\<close>

theorem toggle_failure_keeps_state:
  "(cart_call pf s movie = Some (Inl e) \<longrightarrow>
      cart (toggleCart pf s movie) = cart s \<and>
      bookmarks (toggleCart pf s movie) = bookmarks s \<and>
      localStorage (toggleCart pf s movie) = localStorage s \<and>
      cards (toggleCart pf s movie) = cards s \<and>
      alerts (toggleCart pf s movie) = alerts s @ [message_or e cart_error]) \<and>
   (bookmark_call pf s movie = Some (Inl e) \<longrightarrow>
      cart (toggleBookmark pf s movie) = cart s \<and>
      bookmarks (toggleBookmark pf s movie) = bookmarks s \<and>
      localStorage (toggleBookmark pf s movie) = localStorage s \<and>
      cards (toggleBookmark pf s movie) = cards s \<and>
      alerts (toggleBookmark pf s movie) = alerts s @ [message_or e bookmarks_error])"
proof (intro conjI impI)
  assume "cart_call pf s movie = Some (Inl e)"
  then have c: "toggleCart pf s movie = alert (message_or e cart_error) s"
    by (rule toggleCart_failure)
  show "cart (toggleCart pf s movie) = cart s"
    and "bookmarks (toggleCart pf s movie) = bookmarks s"
    and "localStorage (toggleCart pf s movie) = localStorage s"
    and "cards (toggleCart pf s movie) = cards s"
    and "alerts (toggleCart pf s movie) = alerts s @ [message_or e cart_error]"
    unfolding c by simp_all
next
  assume "bookmark_call pf s movie = Some (Inl e)"
  then have b: "toggleBookmark pf s movie = alert (message_or e bookmarks_error) s"
    by (rule toggleBookmark_failure)
  show "cart (toggleBookmark pf s movie) = cart s"
    and "bookmarks (toggleBookmark pf s movie) = bookmarks s"
    and "localStorage (toggleBookmark pf s movie) = localStorage s"
    and "cards (toggleBookmark pf s movie) = cards s"
    and "alerts (toggleBookmark pf s movie) = alerts s @ [message_or e bookmarks_error]"
    unfolding b by simp_all
qed

lemma example_lookups:
  "find_button server_failing page1 alien cls = Inr (findIndex (matches (selector_text ''7'' cls)) (cards page1))"
  "find_button server_ok s movie cls
     = Inr (findIndex (matches (selector_text (ToString server_ok (get movie ''id'')) cls)) (cards s))"
  by (simp_all add: find_button_def server_failing_def server_ok_def browser_def
        literal_querySelector_def alien_def get_def)

lemma failing_calls:
  "cart_call server_failing page1 alien = Some (Inl (Error ''Unauthorized''))"
  "bookmark_call server_failing page1 alien = Some (Inl (Error ''Unauthorized''))"
  by (simp_all add: cart_call_def bookmark_call_def example_lookups)
     (simp_all add: page1_def alien_def same_id_def get_def
        addCartOnServer_def removeBookmarkOnServer_def apiRequest_def server_failing_def
        browser_def parse_body_def failure_eq message_of_body_def stringified_def)

theorem toggle_failure_keeps_state_witness:
  "cart_call server_failing page1 alien = Some (Inl (Error ''Unauthorized'')) \<and>
   cart (toggleCart server_failing page1 alien) = [] \<and>
   localStorage (toggleCart server_failing page1 alien) = [] \<and>
   bookmark_call server_failing page1 alien = Some (Inl (Error ''Unauthorized'')) \<and>
   bookmarks (toggleBookmark server_failing page1 alien) = [alien] \<and>
   localStorage (toggleBookmark server_failing page1 alien) = []"
  using toggle_failure_keeps_state [of server_failing page1 alien "Error ''Unauthorized''"]
    failing_calls
  by (simp add: page1_def)


lemma ok_calls:
  "cart_call server_ok page1 alien = Some (Inr (JObj []))"
  "bookmark_call server_ok page1 alien = Some (Inr (JObj []))"
  "cart_call server_ok page_twice alien = Some (Inr (JObj []))"
  "cart_call server_ok page_no_button alien_no_id = Some (Inr (JObj []))"
  by (simp_all add: cart_call_def bookmark_call_def example_lookups)
     (simp_all add: page1_def page_twice_def page_no_button_def
        alien_def alien_no_id_def same_id_def get_def
        addCartOnServer_def removeCartOnServer_def removeBookmarkOnServer_def apiRequest_def
        server_ok_def browser_def parse_body_def)

lemma entries_examples:
  "entries_with_id server_ok (cart page1) alien = 0"
  "entries_with_id server_ok (bookmarks page1) alien = 1"
  "entries_with_id server_ok (cart page_twice) alien = 2"
  "unique_ids server_ok (cart page1)"
  "unique_ids server_ok (bookmarks page1)"
  "\<not> unique_ids server_ok (cart page_twice)"
  by (simp_all add: entries_with_id_def unique_ids_def page1_def page_twice_def)


text \<open>
  The uniqueness of the ids is needed for the second part: \<open>splice(index, 1)\<close> removes
  the first entry with the id and no other, so a list that held the id twice, which
  no toggle produces, would keep one such entry.
\<close>

lemma toggle_remove_of_duplicate:
  "cart_call server_ok page_twice alien = Some (Inr (JObj [])) \<and>
   entries_with_id server_ok (cart page_twice) alien = 2 \<and>
   entries_with_id server_ok (cart (toggleCart server_ok page_twice alien)) alien = 1"
proof -
  have "cart (toggleCart server_ok page_twice alien) = [alien]"
    using toggleCart_success_cart(1) [OF ok_calls(3)]
    by (simp add: page_twice_def page1_def splice1_def)
  then show ?thesis using ok_calls(3) entries_examples(3) by (simp add: entries_with_id_def)
qed

lemma toggleCart_no_button:
  assumes "cart_call pf s movie = Some (Inr d)"
    and "find_button pf s movie ''.cart-btn'' = Inr None"
  shows "localStorage (toggleCart pf s movie) = localStorage s"
    and "alerts (toggleCart pf s movie) = alerts s @ [message null_button]"
  using assms
  by (auto simp: toggleCart_def try_toggleCart_def cart_call_def Let_def set_cart_btn_def
        message_or_def null_button_def split: option.splits sum.splits)

text \<open>
  Claim C8 fails on the code. On a page with no button for the movie, \<open>toggleCart\<close> with
  a successful add appends the movie to the cart and then throws on
  \<open>button.textContent\<close>: the alert shows the TypeError and \<open>updateStorage\<close> never runs, so
  no snapshot is written. (On the page that has the button both snapshots are written.)
\<close>

theorem toggleCart_no_button_not_persisted:
  "cart_call server_ok page_no_button alien_no_id = Some (Inr (JObj [])) \<and>
   find_button server_ok page_no_button alien_no_id ''.cart-btn'' = Inr None \<and>
   cart page_no_button = [] \<and>
   cart (toggleCart server_ok page_no_button alien_no_id) = [alien_no_id] \<and>
   getItem (localStorage (toggleCart server_ok page_no_button alien_no_id)) ''cart'' = None \<and>
   getItem (localStorage (toggleCart server_ok page_no_button alien_no_id)) ''bookmarks'' = None \<and>
   alerts (toggleCart server_ok page_no_button alien_no_id) = [message null_button] \<and>
   getItem (localStorage (toggleCart server_ok page1 alien)) ''cart''
     = Some (ToString server_ok (JSON_stringify server_ok (JArr [JObj alien]))) \<and>
   getItem (localStorage (toggleCart server_ok page1 alien)) ''bookmarks''
     = Some (ToString server_ok (JSON_stringify server_ok (JArr [JObj alien])))"
proof -
  have q: "find_button server_ok page_no_button alien_no_id ''.cart-btn'' = Inr None"
    by (simp add: example_lookups page_no_button_def matches_def)
  have c: "cart (toggleCart server_ok page_no_button alien_no_id) = [alien_no_id]"
    using toggleCart_success_cart(1) [OF ok_calls(4)]
    by (simp add: page_no_button_def)
  have l: "localStorage (toggleCart server_ok page_no_button alien_no_id) = []"
    using toggleCart_no_button(1) [OF ok_calls(4) q] by (simp add: page_no_button_def)
  have a: "alerts (toggleCart server_ok page_no_button alien_no_id) = [message null_button]"
    using toggleCart_no_button(2) [OF ok_calls(4) q] by (simp add: page_no_button_def)
  have b: "find_button server_ok page1 alien ''.cart-btn'' = Inr (Some 0)"
    by (simp add: example_lookups page1_def matches_def alien_def get_def)
  have p: "localStorage (toggleCart server_ok page1 alien)
             = [(''cart'', ToString server_ok (JSON_stringify server_ok (JArr [JObj alien]))),
                (''bookmarks'', ToString server_ok (JSON_stringify server_ok (JArr [JObj alien])))]"
  proof -
    have i: "findIndex (same_id server_ok alien) (cart page1) = None"
      by (simp add: page1_def)
    have r: "addCartOnServer server_ok (localStorage page1) alien = Inr (JObj [])"
      using ok_calls(1) by (simp add: cart_call_def b i)
    show ?thesis
      by (simp add: toggleCart_def try_toggleCart_def Let_def set_cart_btn_def b i r
            updateStorage_def setItem_def alert_def)
         (simp add: page1_def)
  qed
  show ?thesis
    using ok_calls(4) q c l a p by (simp add: getItem_def page_no_button_def)
qed


subsection \<open>\<open>sortFilms\<close>\<close>

lemma mset_insert_sorted [simp]: "mset (insert_sorted cmp x xs) = add_mset x (mset xs)"
  by (induction xs) auto

lemma mset_Array_sort [simp]: "mset (Array_sort cmp xs) = mset xs"
  by (induction xs) (auto simp: Array_sort_def)

lemma set_insert_sorted [simp]: "set (insert_sorted cmp x xs) = insert x (set xs)"
  by (induction xs) auto

lemma sorted_wrt_insert_sorted:
  assumes cmp: "\<And>a b. not_after (cmp a b) = le a b"
    and total: "\<And>a b. le a b \<or> le b a"
    and trans: "\<And>a b c. le a b \<Longrightarrow> le b c \<Longrightarrow> le a c"
  shows "sorted_wrt le xs \<Longrightarrow> sorted_wrt le (insert_sorted cmp x xs)"
proof (induction xs)
  case Nil
  then show ?case by simp
next
  case (Cons y ys)
  show ?case
  proof (cases "le x y")
    case True
    then have "\<forall>z\<in>set ys. le x z" using Cons.prems trans by auto
    then show ?thesis using True Cons.prems by (simp add: cmp)
  next
    case False
    then have "le y x" using total by blast
    then show ?thesis using False Cons by (auto simp: cmp)
  qed
qed

lemma sorted_wrt_Array_sort:
  assumes "\<And>a b. not_after (cmp a b) = le a b"
    and "\<And>a b. le a b \<or> le b a"
    and "\<And>a b c. le a b \<Longrightarrow> le b c \<Longrightarrow> le a c"
  shows "sorted_wrt le (Array_sort cmp xs)"
proof (induction xs)
  case Nil
  show ?case by (simp add: Array_sort_def)
next
  case (Cons x xs)
  have "Array_sort cmp (x # xs) = insert_sorted cmp x (Array_sort cmp xs)"
    by (simp add: Array_sort_def)
  then show ?case using sorted_wrt_insert_sorted [of cmp le, OF assms Cons] by simp
qed

lemma Array_sort_sorted_id:
  assumes cmp: "\<And>a b. not_after (cmp a b) = le a b"
  shows "sorted_wrt le xs \<Longrightarrow> Array_sort cmp xs = xs"
proof (induction xs)
  case Nil
  show ?case by (simp add: Array_sort_def)
next
  case (Cons x xs)
  then have ih: "Array_sort cmp xs = xs" by simp
  have "Array_sort cmp (x # xs) = insert_sorted cmp x xs"
    using ih by (simp add: Array_sort_def)
  also have "\<dots> = x # xs" using Cons.prems by (cases xs) (simp_all add: cmp)
  finally show ?case .
qed

lemma or_zero_not_NaN [simp]: "or_zero n \<noteq> NaN"
  by (simp add: or_zero_def)

lemma price_key_not_NaN [simp]: "price_key pf a \<noteq> NaN"
  by (simp add: price_key_def)

lemma not_after_minus_num:
  "x \<noteq> NaN \<Longrightarrow> y \<noteq> NaN \<Longrightarrow> not_after (minus_num x y) = num_le x y"
  by (cases x; cases y) simp_all

lemma num_le_total: "x \<noteq> NaN \<Longrightarrow> y \<noteq> NaN \<Longrightarrow> num_le x y \<or> num_le y x"
  by (cases x; cases y) auto

lemma num_le_trans: "num_le x y \<Longrightarrow> num_le y z \<Longrightarrow> num_le x z"
  by (cases x; cases y; cases z) auto

lemma comparefn_price:
  "not_after (comparefn pf ''price'' a b) = num_le (price_key pf a) (price_key pf b)"
  by (simp add: comparefn_def price_key_def Let_def not_after_minus_num)

lemma comparefn_text:
  "field \<noteq> ''price'' \<Longrightarrow>
   not_after (comparefn pf field a b) = text_le (text_key pf field a) (text_key pf field b)"
  by (auto simp: comparefn_def text_key_def text_le_def text_less_def Let_def)

lemma sorted_price:
  "sorted_wrt (\<lambda>a b. num_le (price_key pf a) (price_key pf b))
     (Array_sort (comparefn pf ''price'') xs)"
  by (rule sorted_wrt_Array_sort)
     (auto simp: comparefn_price num_le_total intro: num_le_trans)

lemma sorted_text:
  "field \<noteq> ''price'' \<Longrightarrow>
   sorted_wrt (\<lambda>a b. text_le (text_key pf field a) (text_key pf field b))
     (Array_sort (comparefn pf field) xs)"
  by (rule sorted_wrt_Array_sort) (auto simp: comparefn_text text_le_def)

lemma price_key_eq:
  "price_key pf a =
     (let p = get a ''price''
      in if p = JUndefined \<or> p = JNull \<or> parseFloat pf p = NaN then Fin 0
         else parseFloat pf p)"
proof -
  have e: "parseFloat pf (JStr []) = NaN"
    by (simp add: parseFloat_def)
  have z: "\<And>n. or_zero n = (if n = NaN then Fin 0 else n)"
    by (simp add: or_zero_def)
  show ?thesis
    by (simp add: price_key_def nullish_def Let_def e z)
qed

lemma text_key_eq:
  "text_key pf field a =
     (let v = get a field
      in if v = JUndefined \<or> v = JNull then [] else toLowerCase pf (ToString pf v))"
  by (simp add: text_key_def nullish_def Let_def toLowerCase_def)

lemma sortFilms_eq:
  "sortFilms pf st films field =
     (st @ [Array_sort (comparefn pf field) (st ! films)], length st)"
  by (simp add: sortFilms_def spread_def sort_in_place_def)

text \<open>
  Claim C3. \<open>sortFilms\<close> returns a new array (an address that was not allocated
  before) and leaves every array of the store, the input among them, as it was. The
  new array holds the elements of the input; when the field is \<open>price\<close> it is in
  ascending order of the numeric parse of the price, a missing or non-numeric price
  counting as 0; for every other field it is in ascending order of the lower-case text
  of the field, a missing field counting as the empty text. The parse, the lower case
  and the text of a number are the platform's, whichever they are; texts are in the
  order of their code units.
\<close>

theorem sortFilms_ordered:
  assumes "films < length st"
  shows "case sortFilms pf st films field of
           (st', res) \<Rightarrow>
             res = length st \<and> res \<noteq> films \<and>
             (\<forall>a<length st. st' ! a = st ! a) \<and>
             mset (st' ! res) = mset (st ! films) \<and>
             (field = ''price'' \<longrightarrow>
                sorted_wrt (\<lambda>a b. num_le (price_key pf a) (price_key pf b)) (st' ! res)) \<and>
             (field \<noteq> ''price'' \<longrightarrow>
                sorted_wrt (\<lambda>a b. text_le (text_key pf field a) (text_key pf field b))
                  (st' ! res)) \<and>
             (\<forall>a. price_key pf a =
                (let p = get a ''price''
                 in if p = JUndefined \<or> p = JNull \<or> parseFloat pf p = NaN then Fin 0
                    else parseFloat pf p)) \<and>
             (\<forall>a. text_key pf field a =
                (let v = get a field
                 in if v = JUndefined \<or> v = JNull then []
                    else toLowerCase pf (ToString pf v)))"
proof -
  let ?out = "Array_sort (comparefn pf field) (st ! films)"
  let ?st' = "st @ [?out]"
  have 1: "length st \<noteq> films" using assms by simp
  have 2: "\<forall>a<length st. ?st' ! a = st ! a"
    by (simp add: nth_append)
  have 3: "mset (?st' ! length st) = mset (st ! films)" by simp
  have 4: "field = ''price'' \<longrightarrow>
      sorted_wrt (\<lambda>a b. num_le (price_key pf a) (price_key pf b)) (?st' ! length st)"
    using sorted_price by simp
  have 5: "field \<noteq> ''price'' \<longrightarrow>
      sorted_wrt (\<lambda>a b. text_le (text_key pf field a) (text_key pf field b)) (?st' ! length st)"
    using sorted_text by simp
  have 6: "\<forall>a. price_key pf a =
                (let p = get a ''price''
                 in if p = JUndefined \<or> p = JNull \<or> parseFloat pf p = NaN then Fin 0
                    else parseFloat pf p)"
    using price_key_eq by blast
  have 7: "\<forall>a. text_key pf field a =
                (let v = get a field
                 in if v = JUndefined \<or> v = JNull then []
                    else toLowerCase pf (ToString pf v))"
    using text_key_eq by blast
  show ?thesis
    unfolding sortFilms_eq prod.case
    by (intro conjI refl 1 2 3 4 5 6 7)
qed

lemma listing_sorted:
  "sortFilms browser [listing] 0 ''title'' = ([listing, [film_alien, arena, brat, zorro]], 1)"
  "sortFilms browser [listing] 0 ''price'' = ([listing, [brat, arena, film_alien, zorro]], 1)"
  by code_simp+

lemma listing_keys:
  "map (text_key browser ''title'') listing = [''zorro'', ''alien'', ''brat'', ''arena'']"
  "map (price_key browser) listing = [Fin 20, Fin (11 / 2), Fin 0, Fin 0]"
  by code_simp+

theorem sortFilms_ordered_witness:
  "(0::nat) < length [listing] \<and>
   map (text_key browser ''title'') listing = [''zorro'', ''alien'', ''brat'', ''arena''] \<and>
   sortFilms browser [listing] 0 ''title'' = ([listing, [film_alien, arena, brat, zorro]], 1) \<and>
   sorted_wrt (\<lambda>a b. text_le (text_key browser ''title'' a) (text_key browser ''title'' b))
     [film_alien, arena, brat, zorro] \<and>
   map (price_key browser) listing = [Fin 20, Fin (11 / 2), Fin 0, Fin 0] \<and>
   sortFilms browser [listing] 0 ''price'' = ([listing, [brat, arena, film_alien, zorro]], 1) \<and>
   sorted_wrt (\<lambda>a b. num_le (price_key browser a) (price_key browser b))
     [brat, arena, film_alien, zorro]"
proof -
  have l: "(0::nat) < length [listing]" by simp
  have n: "\<And>xs. [listing, xs] ! 1 = xs" by simp
  show ?thesis
    using sortFilms_ordered [OF l, where pf = browser and field = "''title''"]
      sortFilms_ordered [OF l, where pf = browser and field = "''price''"] l listing_keys
    unfolding listing_sorted prod.case n by blast
qed

text \<open>
  Claim C4. Sorting is idempotent: sorting the result of \<open>sortFilms\<close> again by the same
  field yields an array with the same elements in the same order.
\<close>

theorem sortFilms_idempotent:
  assumes "films < length st"
  shows "case sortFilms pf st films field of
           (st1, once) \<Rightarrow>
             (case sortFilms pf st1 once field of
                (st2, twice) \<Rightarrow> st2 ! twice = st1 ! once)"
proof -
  let ?xs = "Array_sort (comparefn pf field) (st ! films)"
  have "Array_sort (comparefn pf field) ?xs = ?xs"
  proof (cases "field = ''price''")
    case True
    show ?thesis unfolding True
      by (rule Array_sort_sorted_id [where le = "\<lambda>a b. num_le (price_key pf a) (price_key pf b)"])
         (simp_all add: comparefn_price sorted_price)
  next
    case False
    show ?thesis
      by (rule Array_sort_sorted_id
            [where le = "\<lambda>a b. text_le (text_key pf field a) (text_key pf field b)"])
         (simp_all add: comparefn_text False sorted_text)
  qed
  then show ?thesis by (simp add: sortFilms_eq)
qed

theorem sortFilms_idempotent_witness:
  "(0::nat) < length [cache] \<and>
   sortFilms browser [cache] 0 ''price'' = ([cache, rev cache], 1) \<and>
   sortFilms browser [cache, rev cache] 1 ''price'' = ([cache, rev cache, rev cache], 2)"
proof -
  have p: "sortFilms browser [cache] 0 ''price'' = ([cache, rev cache], 1)" by code_simp
  show ?thesis
    using sortFilms_idempotent [of 0 "[cache]" browser "''price''"]
    unfolding p by (simp add: sortFilms_eq)
qed

subsection \<open>The image source\<close>

lemma inherited_names:
  "map_of Object_prototype key \<noteq> None \<longleftrightarrow> key \<in> fst ` set Object_prototype"
  by (simp add: map_of_eq_None_iff)

lemma titleMapping_values:
  "map_of titleMapping key = Some v \<Longrightarrow> truthy v \<and> (\<exists>p. v = JStr p)"
  by (auto simp: titleMapping_def split: if_splits)

lemma get_titleMapping_own:
  "map_of titleMapping t = Some v \<Longrightarrow> getImagePathForFilm pf (JStr t) = Inr v"
  using titleMapping_values [of t v] by (simp add: getImagePathForFilm_def get_def)

lemma get_titleMapping_other:
  assumes "map_of titleMapping t = None" and "t \<notin> fst ` set Object_prototype"
  shows "getImagePathForFilm pf (JStr t) =
           (case find (\<lambda>(key, value). toLowerCase pf key = toLowerCase pf t) titleMapping of
              Some (key, value) \<Rightarrow> Inr value
            | None \<Rightarrow> Inr (JStr placeholder))"
proof -
  have "map_of Object_prototype t = None"
    using assms(2) inherited_names [of t] by blast
  then show ?thesis using assms(1) by (simp add: getImagePathForFilm_def get_def)
qed

text \<open>
  What the resolution of the image source does for a title that is a string and not
  the name of an inherited member: the embedded payload with the default prefix, or
  unchanged when it begins with \<open>data:image/\<close>; else the path of the table, by exact
  match first, then regardless of case; else the placeholder.
\<close>

lemma imageSrc_resolution:
  "(get film ''movie_base64'' = JStr payload \<and> payload \<noteq> [] \<and>
      \<not> startsWith payload ''data:image/'' \<longrightarrow>
      imageSrc pf film = Inr (JStr (''data:image/jpeg;base64,'' @ payload))) \<and>
   (get film ''movie_base64'' = JStr payload \<and> startsWith payload ''data:image/'' \<longrightarrow>
      imageSrc pf film = Inr (JStr payload)) \<and>
   (\<not> truthy (get film ''movie_base64'') \<and> get film ''title'' = JStr t \<and>
      map_of titleMapping t = Some v \<longrightarrow> imageSrc pf film = Inr v) \<and>
   (\<not> truthy (get film ''movie_base64'') \<and> get film ''title'' = JStr t \<and>
      map_of titleMapping t = None \<and> t \<notin> fst ` set Object_prototype \<and>
      find (\<lambda>(key, value). toLowerCase pf key = toLowerCase pf t) titleMapping = Some (k, v) \<longrightarrow>
      imageSrc pf film = Inr v) \<and>
   (\<not> truthy (get film ''movie_base64'') \<and> get film ''title'' = JStr t \<and>
      map_of titleMapping t = None \<and> t \<notin> fst ` set Object_prototype \<and>
      find (\<lambda>(key, value). toLowerCase pf key = toLowerCase pf t) titleMapping = None \<longrightarrow>
      imageSrc pf film = Inr (JStr placeholder))"
proof -
  have p: "\<not> startsWith [] ''data:image/''"
    by (simp add: startsWith_def)
  have s: "\<And>payload. ToString pf (JStr payload) = payload"
    by simp
  show ?thesis
    using p by (auto simp: imageSrc_def Let_def get_titleMapping_own get_titleMapping_other)
qed

text \<open>
  Claim C9 fails on the code. A record with no embedded payload whose title is
  \<open>constructor\<close> matches no title of the table, exactly or regardless of case; yet its
  image source is not the placeholder path: \<open>titleMapping[title]\<close> finds the constructor
  every object inherits, and \<open>getImagePathForFilm\<close> returns that function.
\<close>

theorem imageSrc_inherited_name:
  "(let film = [(''title'', JStr ''constructor'')]
    in \<not> truthy (get film ''movie_base64'') \<and>
       map_of titleMapping ''constructor'' = None \<and>
       find (\<lambda>(key, value). toLowerCase browser key = toLowerCase browser ''constructor'')
         titleMapping = None \<and>
       imageSrc browser film = Inr (JFun ''Object'') \<and>
       imageSrc browser film \<noteq> Inr (JStr placeholder))"
  by (simp add: imageSrc_def getImagePathForFilm_def get_def Object_prototype_def
        titleMapping_def toLowerCase_def browser_def ascii_toLowerCase_def lower_char_def)

end
